theory Spec2Isabelle
  imports Complex_Main
begin

section \<open>Numbers, the random source and property lookup\<close>

text \<open>
  The numbers of the program are modelled as real numbers: every buffer entry is a finite
  value and arithmetic is exact (the rounding of doubles is left out). The methods are
  given first with exact buffers; the rounding of the writes to the 32-bit buffers is added
  in the section on the values stored in the 32-bit buffers, for the statements that depend
  on the stored values. No real number is NaN, so the guard \<open>isNaN\<close> of the integrator is
  never true here.
\<close>

definition isNaN :: "real \<Rightarrow> bool" where
  "isNaN t = False"

text \<open>
  \<open>Math.random()\<close> is an input of the model: the sequence of the values it will return,
  read from the front. Each call returns the head and leaves the rest.
\<close>

type_synonym rng = "nat \<Rightarrow> real"

definition random :: "rng \<Rightarrow> real \<times> rng" where
  "random r = (r 0, \<lambda>n. r (Suc n))"

text \<open>The remainder operator \<open>%\<close> on integral values: the sign follows the dividend.\<close>

definition js_rem :: "int \<Rightarrow> int \<Rightarrow> int" where
  "js_rem a b = sgn a * (\<bar>a\<bar> mod \<bar>b\<bar>)"

text \<open>
  \<open>obj[name]\<close> on an object literal finds the literal's own properties and, failing
  that, the properties every object inherits from \<open>Object.prototype\<close>; only a name
  found in neither is \<open>undefined\<close>.
\<close>

datatype 'a property = Own 'a | Inherited | Undefined

definition object_prototype_names :: "string list" where
  "object_prototype_names =
     [''constructor'', ''hasOwnProperty'', ''isPrototypeOf'', ''propertyIsEnumerable'',
      ''toLocaleString'', ''toString'', ''valueOf'', ''__proto__'',
      ''__defineGetter__'', ''__defineSetter__'', ''__lookupGetter__'', ''__lookupSetter__'']"

definition js_get :: "(string \<Rightarrow> 'a option) \<Rightarrow> string \<Rightarrow> 'a property" where
  "js_get obj name =
     (case obj name of
        Some v \<Rightarrow> Own v
      | None \<Rightarrow> if name \<in> set object_prototype_names then Inherited else Undefined)"

text \<open>
  Calling an inherited member with the arguments \<open>(u, v, dummy)\<close> of the template loop:
  \<open>__proto__\<close> is an object and not a function, and \<open>__defineGetter__\<close> and
  \<open>__defineSetter__\<close> reject the number \<open>v\<close> as an accessor; these three throw. The
  other members return without touching \<open>dummy\<close>.
\<close>

definition inherited_call_throws :: "string \<Rightarrow> bool" where
  "inherited_call_throws name =
     (name = ''__proto__'' \<or> name = ''__defineGetter__'' \<or> name = ''__defineSetter__'')"

datatype js_error = TypeError

section \<open>Parametric shape generators\<close>

record vec3 =
  vec_x :: real
  vec_y :: real
  vec_z :: real

definition vec3_set :: "real \<Rightarrow> real \<Rightarrow> real \<Rightarrow> vec3" where
  "vec3_set a b c = \<lparr>vec_x = a, vec_y = b, vec_z = c\<rparr>"

text \<open>
  A generator takes \<open>u\<close>, \<open>v\<close> and the random source (for its own calls of
  \<open>Math.random()\<close>) and returns the point it sets and the rest of the source.
\<close>

type_synonym generator = "real \<Rightarrow> real \<Rightarrow> rng \<Rightarrow> vec3 \<times> rng"

definition heart :: generator where
  "heart u v r =
     (let phi = u * pi * 2;
          scale = root 3 v;
          px = 16 * (sin phi) ^ 3 * scale;
          py = (13 * cos phi - 5 * cos (2 * phi) - 2 * cos (3 * phi) - cos (4 * phi)) * scale;
          (q, r1) = random r;
          pz = (q - 0.5) * 4 * scale
      in (vec3_set (px * 0.45) (py * 0.45 + 2) pz, r1))"

definition flower :: generator where
  "flower u v r =
     (let phi = u * pi * 2;
          theta = v * pi;
          petals = 5;
          rad = 10 * (1 + 0.6 * sin (petals * phi) * sin theta)
      in (vec3_set (rad * sin theta * cos phi) (rad * sin theta * sin phi) (rad * cos theta), r))"

definition saturn :: generator where
  "saturn u v r =
     (if v < 0.35 then
        (let phi = u * pi * 2;
             theta = (v / 0.35) * pi;
             (q, r1) = random r;
             rad = 8 * root 3 q
         in (vec3_set (rad * sin theta * cos phi) (rad * sin theta * sin phi * 0.85)
               (rad * cos phi * 0.4), r1))
      else
        (let angle = u * pi * 2;
             ringR = 13 + (v - 0.35) * 28;
             (q, r1) = random r;
             py = (q - 0.5) * 0.4;
             px = cos angle * ringR;
             pz = sin angle * ringR;
             tiltAngle = 0.44
         in (vec3_set px (py + pz * sin tiltAngle) (pz * cos tiltAngle), r1)))"

definition fireworks :: generator where
  "fireworks u v r =
     (let burst = real_of_int \<lfloor>u * 5\<rfloor>;
          cx = (burst - 2) * 10 + (sin (burst * 7.3) * 4);
          cy = cos (burst * 3.1) * 6 + 4;
          cz = sin (burst * 5.7) * 3;
          phi = arccos (2 * v - 1);
          theta = u * pi * 2 * 12.5;
          (q, r1) = random r;
          rad = q * 6
      in (vec3_set (cx + rad * sin phi * cos theta) (cy + rad * sin phi * sin theta)
            (cz + rad * cos phi), r1))"

definition galaxy :: generator where
  "galaxy u v r =
     (let arms = 3;
          arm = real_of_int (js_rem \<lfloor>u * real_of_int arms * 100\<rfloor> arms);
          armAngle = (arm / real_of_int arms) * pi * 2;
          t = v * 30;
          angle = armAngle + t * 0.4;
          spread = 0.5 + t * 0.12;
          (q1, r1) = random r;
          (q2, r2) = random r1;
          (q3, r3) = random r2
      in (vec3_set (t * cos angle + (q1 - 0.5) * spread * 3)
            ((q2 - 0.5) * (1.5 + t * 0.05))
            (t * sin angle + (q3 - 0.5) * spread * 3), r3))"

definition dna :: generator where
  "dna u v r =
     (let h = v * 50 - 25;
          angle = h * 0.5
      in if u < 0.4 then (vec3_set (cos angle * 6) h (sin angle * 6), r)
         else if u < 0.8 then (vec3_set (cos (angle + pi) * 6) h (sin (angle + pi) * 6), r)
         else
           (let (lerp, r1) = random r;
                (q, r2) = random r1
            in (vec3_set (cos angle * 6 * (1 - lerp) + cos (angle + pi) * 6 * lerp)
                  (h + (q - 0.5) * 0.3)
                  (sin angle * 6 * (1 - lerp) + sin (angle + pi) * 6 * lerp), r2)))"

definition star :: generator where
  "star u v r =
     (let points = 5;
          angle = u * pi * 2;
          segment = angle / (pi / points);
          segFloor = \<lfloor>segment\<rfloor>;
          segFrac = segment - real_of_int segFloor;
          outerR = 15;
          innerR = 6;
          r1 = (if js_rem segFloor 2 = 0 then outerR else innerR);
          r2 = (if js_rem segFloor 2 = 0 then innerR else outerR);
          maxR = r1 + (r2 - r1) * segFrac;
          rad = sqrt v * maxR;
          (q, r') = random r
      in (vec3_set (rad * cos angle) (rad * sin angle) ((q - 0.5) * 2), r'))"

definition tornado :: generator where
  "tornado u v r =
     (let angle = u * pi * 2 * 10;
          h = v * 40 - 20;
          rad = 2 + (v * v) * 18
      in (vec3_set (cos (angle + h * 0.2) * rad) h (sin (angle + h * 0.2) * rad), r))"

definition sphere :: generator where
  "sphere u v r =
     (let phi = u * pi * 2;
          theta = v * pi;
          (q, r1) = random r;
          rad = 15 * root 3 q
      in (vec3_set (rad * sin theta * cos phi) (rad * sin theta * sin phi) (rad * cos theta), r1))"

text \<open>The own properties of the object \<open>parametric\<close>.\<close>

definition parametric_tbl :: "string \<Rightarrow> generator option" where
  "parametric_tbl name =
     (if name = ''heart'' then Some heart
      else if name = ''flower'' then Some flower
      else if name = ''saturn'' then Some saturn
      else if name = ''fireworks'' then Some fireworks
      else if name = ''galaxy'' then Some galaxy
      else if name = ''dna'' then Some dna
      else if name = ''star'' then Some star
      else if name = ''tornado'' then Some tornado
      else if name = ''sphere'' then Some sphere
      else None)"

section \<open>Colour palettes\<close>

type_synonym palette = "real list list"

text \<open>The own properties of the object \<open>SHAPE_COLORS\<close>.\<close>

definition SHAPE_COLORS :: "string \<Rightarrow> palette option" where
  "SHAPE_COLORS name =
     (if name = ''heart'' then
        Some [[1.0, 0.15, 0.35], [1.0, 0.35, 0.55], [0.85, 0.05, 0.25], [1.0, 0.55, 0.65]]
      else if name = ''flower'' then
        Some [[1.0, 0.75, 0.15], [0.2, 0.85, 0.35], [1.0, 0.45, 0.65], [0.95, 0.55, 0.1]]
      else if name = ''saturn'' then
        Some [[0.55, 0.25, 0.9], [0.9, 0.7, 0.2], [0.75, 0.45, 1.0], [0.3, 0.15, 0.7]]
      else if name = ''fireworks'' then
        Some [[1.0, 0.85, 0.1], [1.0, 0.25, 0.1], [0.15, 1.0, 0.35], [0.25, 0.6, 1.0]]
      else if name = ''galaxy'' then
        Some [[0.1, 0.7, 1.0], [0.85, 0.3, 1.0], [0.2, 0.4, 1.0], [0.95, 0.9, 0.75]]
      else if name = ''dna'' then
        Some [[0.0, 0.9, 0.8], [0.0, 0.6, 1.0], [0.3, 1.0, 0.5], [0.1, 0.8, 0.9]]
      else if name = ''star'' then
        Some [[1.0, 0.95, 0.5], [1.0, 0.8, 0.2], [1.0, 0.65, 0.0], [1.0, 1.0, 0.85]]
      else if name = ''tornado'' then
        Some [[0.6, 0.6, 0.7], [0.4, 0.45, 0.55], [0.8, 0.85, 0.9], [0.35, 0.4, 0.5]]
      else if name = ''sphere'' then
        Some [[0.3, 0.5, 1.0], [0.4, 0.65, 1.0], [0.5, 0.75, 1.0], [0.2, 0.4, 0.9]]
      else None)"

definition sphere_palette :: palette where
  "sphere_palette = [[0.3, 0.5, 1.0], [0.4, 0.65, 1.0], [0.5, 0.75, 1.0], [0.2, 0.4, 0.9]]"

section \<open>The particle system\<close>

text \<open>
  The fields of \<open>ParticleSystem\<close> that its methods read or write. The buffers are the
  flat arrays of the code: entry \<open>i * 3 + k\<close> is component \<open>k\<close> of particle \<open>i\<close>.
  \<open>uTime\<close> and \<open>uExpansion\<close> are the shader uniforms.
\<close>

record particle_system =
  count :: nat
  currentTemplate :: string
  time :: real
  colorPaletteIndex :: nat
  positions :: "real list"
  colors :: "real list"
  sizes :: "real list"
  velocities :: "real list"
  targetPositions :: "real list"
  targetColors :: "real list"
  uTime :: real
  uExpansion :: real

text \<open>
  A call that throws leaves the fields as they are at the throw: \<open>Inl\<close> carries the
  error with that state, \<open>Inr\<close> is a normal return.
\<close>

type_synonym outcome = "(js_error \<times> particle_system \<times> rng) + (particle_system \<times> rng)"

subsection \<open>setTemplate\<close>

text \<open>
  One pass of the loop of \<open>setTemplate\<close> for particle \<open>i\<close>: the draws \<open>u\<close> and
  \<open>v\<close>, the generator setting \<open>dummy\<close>, the jitter on its three components, the write
  of the target position, then the palette colour \<open>c\<close> with a random variation on each
  channel, capped at 1 by \<open>Math.min\<close>.
\<close>

definition setTemplate_body :: "generator \<Rightarrow> palette \<Rightarrow> nat \<Rightarrow> particle_system \<times> rng \<Rightarrow> particle_system \<times> rng" where
  "setTemplate_body gen pal i sr =
     (let (s, r) = sr;
          (u, r1) = random r;
          (v, r2) = random r1;
          (dummy, r3) = gen u v r2;
          (j1, r4) = random r3;
          (j2, r5) = random r4;
          (j3, r6) = random r5;
          dx = vec_x dummy + (j1 - 0.5) * 0.3;
          dy = vec_y dummy + (j2 - 0.5) * 0.3;
          dz = vec_z dummy + (j3 - 0.5) * 0.3;
          tp = (targetPositions s)[i * 3 := dx, i * 3 + 1 := dy, i * 3 + 2 := dz];
          c = pal ! (i mod length pal);
          variation = 0.1;
          (q1, r7) = random r6;
          (q2, r8) = random r7;
          (q3, r9) = random r8;
          tc = (targetColors s)
                 [i * 3 := min 1 (c ! 0 + (q1 - 0.5) * variation),
                  i * 3 + 1 := min 1 (c ! 1 + (q2 - 0.5) * variation),
                  i * 3 + 2 := min 1 (c ! 2 + (q3 - 0.5) * variation)]
      in (s\<lparr>targetPositions := tp, targetColors := tc\<rparr>, r9))"

text \<open>The loop \<open>for (i = 0; i < n; i++)\<close> over the body.\<close>

fun setTemplate_loop :: "generator \<Rightarrow> palette \<Rightarrow> nat \<Rightarrow> particle_system \<times> rng \<Rightarrow> particle_system \<times> rng" where
  "setTemplate_loop gen pal 0 sr = sr"
| "setTemplate_loop gen pal (Suc n) sr = setTemplate_body gen pal n (setTemplate_loop gen pal n sr)"

text \<open>
  The first pass of the loop when \<open>parametric[templateName]\<close> is an inherited member:
  \<open>SHAPE_COLORS[templateName]\<close> is then the same inherited member, which is truthy and
  has no indexed entries, so \<open>c\<close> is \<open>undefined\<close> and reading \<open>c[0]\<close> throws, after
  the target position of particle 0 has been written from the zero vector plus jitter.
\<close>

definition setTemplate_inherited :: "string \<Rightarrow> particle_system \<times> rng \<Rightarrow> outcome" where
  "setTemplate_inherited templateName sr =
     (let (s, r) = sr;
          (u, r1) = random r;
          (v, r2) = random r1
      in if inherited_call_throws templateName then Inl (TypeError, s, r2)
         else
           (let dummy = vec3_set 0 0 0;
                (j1, r4) = random r2;
                (j2, r5) = random r4;
                (j3, r6) = random r5;
                dx = vec_x dummy + (j1 - 0.5) * 0.3;
                dy = vec_y dummy + (j2 - 0.5) * 0.3;
                dz = vec_z dummy + (j3 - 0.5) * 0.3;
                tp = (targetPositions s)[0 := dx, 1 := dy, 2 := dz]
            in Inl (TypeError, s\<lparr>targetPositions := tp\<rparr>, r6)))"

text \<open>
  \<open>setTemplate\<close>: the guard \<open>if (!parametric[templateName]) return\<close>, the
  assignment of \<open>currentTemplate\<close>, the palette
  \<open>SHAPE_COLORS[templateName] || SHAPE_COLORS.sphere\<close> and the loop. The two tables have
  the same nine own names, so for a shape name the palette lookup never reaches the
  prototype. The shape indicator shown at the end only touches the page and is left out.
\<close>

definition setTemplate :: "string \<Rightarrow> particle_system \<times> rng \<Rightarrow> outcome" where
  "setTemplate templateName sr =
     (let (s, r) = sr in
      case js_get parametric_tbl templateName of
        Undefined \<Rightarrow> Inr (s, r)
      | Own gen \<Rightarrow>
          (let s1 = s\<lparr>currentTemplate := templateName\<rparr>;
               palette = (case SHAPE_COLORS templateName of Some p \<Rightarrow> p | None \<Rightarrow> sphere_palette)
           in Inr (setTemplate_loop gen palette (count s1) (s1, r)))
      | Inherited \<Rightarrow>
          (let s1 = s\<lparr>currentTemplate := templateName\<rparr>
           in if count s1 = 0 then Inr (s1, r) else setTemplate_inherited templateName (s1, r)))"

subsection \<open>update\<close>

record gestures =
  isFist :: bool
  isPinching :: bool
  isOpen :: bool
  isRock :: bool
  isPeace :: bool
  isPointing :: bool
  handDetected :: bool
  handSpread :: real
  pointer :: "(real \<times> real) option"

text \<open>The empty object \<open>{}\<close>: every flag is falsy and there is no pointer.\<close>

definition no_gestures :: gestures where
  "no_gestures = \<lparr>isFist = False, isPinching = False, isOpen = False, isRock = False,
     isPeace = False, isPointing = False, handDetected = False, handSpread = 0, pointer = None\<rparr>"

text \<open>
  The gesture chain of \<open>update\<close>: the first flag that is set selects a shape, and
  \<open>setTemplate\<close> is called when that shape is not the current template.
\<close>

definition switch_to :: "string \<Rightarrow> particle_system \<times> rng \<Rightarrow> outcome" where
  "switch_to name sr = (if currentTemplate (fst sr) \<noteq> name then setTemplate name sr else Inr sr)"

definition gesture_template :: "gestures \<Rightarrow> particle_system \<times> rng \<Rightarrow> outcome" where
  "gesture_template g sr =
     (if isFist g then switch_to ''heart'' sr
      else if isPinching g then switch_to ''dna'' sr
      else if isOpen g then switch_to ''galaxy'' sr
      else if isRock g then switch_to ''saturn'' sr
      else if isPeace g then switch_to ''flower'' sr
      else if isPointing g then switch_to ''fireworks'' sr
      else Inr sr)"

text \<open>
  One pass of the per-particle loop of \<open>update\<close> for particle \<open>i\<close>, with the time
  step and the repulsion point \<open>(bx, by)\<close>: seek, repulsion or colour blend, damping,
  integration, size pulse.
\<close>

definition update_body :: "real \<Rightarrow> real \<Rightarrow> real \<Rightarrow> nat \<Rightarrow> particle_system \<Rightarrow> particle_system" where
  "update_body dt bx by i s =
     (let seekStrength = 2.5;
          damping = 0.88;
          colorLerp = 0.025;
          i3 = i * 3;
          px = positions s ! i3;
          py = positions s ! (i3 + 1);
          pz = positions s ! (i3 + 2);
          vx = velocities s ! i3;
          vy = velocities s ! (i3 + 1);
          vz = velocities s ! (i3 + 2);
          tx = targetPositions s ! i3;
          ty = targetPositions s ! (i3 + 1);
          tz = targetPositions s ! (i3 + 2);
          vx = (if \<not> isNaN tx then vx + (tx - px) * seekStrength * dt else vx);
          vy = (if \<not> isNaN tx then vy + (ty - py) * seekStrength * dt else vy);
          vz = (if \<not> isNaN tx then vz + (tz - pz) * seekStrength * dt else vz);
          dx = bx - px;
          dy = by - py;
          dz = 0 - pz;
          distSq = dx * dx + dy * dy + dz * dz;
          near = (distSq < 50 \<and> distSq > 0.01);
          dist = sqrt distSq;
          force = (7 - dist) * 3.0;
          nx = dx / dist;
          ny = dy / dist;
          nz = dz / dist;
          vx = (if near then vx - nx * force * dt * 6 else vx);
          vy = (if near then vy - ny * force * dt * 6 else vy);
          vz = (if near then vz - nz * force * dt * 6 else vz);
          cr = colors s ! i3;
          cg = colors s ! (i3 + 1);
          cb = colors s ! (i3 + 2);
          cr = (if near then min 1 (cr + 0.15) else cr + (targetColors s ! i3 - cr) * colorLerp);
          cg = (if near then min 1 (cg + 0.15) else cg + (targetColors s ! (i3 + 1) - cg) * colorLerp);
          cb = (if near then min 1 (cb + 0.15) else cb + (targetColors s ! (i3 + 2) - cb) * colorLerp);
          vx = vx * damping;
          vy = vy * damping;
          vz = vz * damping;
          px = px + vx * dt;
          py = py + vy * dt;
          pz = pz + vz * dt
      in s\<lparr>positions := (positions s)[i3 := px, i3 + 1 := py, i3 + 2 := pz],
           velocities := (velocities s)[i3 := vx, i3 + 1 := vy, i3 + 2 := vz],
           colors := (colors s)[i3 := cr, i3 + 1 := cg, i3 + 2 := cb],
           sizes := (sizes s)[i := 0.3 + 0.4 * sin (time s * 1.5 + real i * 0.01)]\<rparr>)"

text \<open>The repulsion point: the pointer scaled into the scene, or a far point without one.\<close>

definition hasPointer :: "gestures \<Rightarrow> bool" where
  "hasPointer g = (handDetected g \<and> pointer g \<noteq> None)"

definition pointer_bx :: "gestures \<Rightarrow> real" where
  "pointer_bx g = (if hasPointer g then fst (the (pointer g)) * 40 else 9999)"

definition pointer_by :: "gestures \<Rightarrow> real" where
  "pointer_by g = (if hasPointer g then snd (the (pointer g)) * 20 else 9999)"

text \<open>\<open>if (!gestures) gestures = {}\<close>: an absent snapshot is the empty object.\<close>

definition gestures_or_empty :: "gestures option \<Rightarrow> gestures" where
  "gestures_or_empty gestures_arg = (case gestures_arg of None \<Rightarrow> no_gestures | Some g \<Rightarrow> g)"

fun update_loop :: "real \<Rightarrow> real \<Rightarrow> real \<Rightarrow> nat \<Rightarrow> particle_system \<Rightarrow> particle_system" where
  "update_loop dt bx by 0 s = s"
| "update_loop dt bx by (Suc n) s = update_body dt bx by n (update_loop dt bx by n s)"

text \<open>
  \<open>update\<close>: the clock, the gesture chain, the smoothing of the expansion uniform, the
  loop over the particles.
\<close>

definition update :: "real \<Rightarrow> gestures option \<Rightarrow> particle_system \<times> rng \<Rightarrow> outcome" where
  "update dt gestures_arg sr =
     (let (s, r) = sr;
          g = gestures_or_empty gestures_arg;
          s = s\<lparr>time := time s + dt\<rparr>;
          s = s\<lparr>uTime := time s\<rparr>
      in case gesture_template g (s, r) of
           Inl e \<Rightarrow> Inl e
         | Inr (s, r) \<Rightarrow>
             (let targetExpansion = (if handDetected g then 0.7 + handSpread g * 0.8 else 1.0);
                  currentExp = uExpansion s;
                  s = s\<lparr>uExpansion := uExpansion s + (targetExpansion - currentExp) * 0.03\<rparr>;
                  bx = pointer_bx g;
                  by = pointer_by g
              in Inr (update_loop dt bx by (count s) s, r)))"

subsection \<open>cycleColors\<close>

text \<open>
  One pass of the loop of \<open>cycleColors\<close> for particle \<open>i\<close>: the palette colour at
  \<open>(i + colorPaletteIndex) % palette.length\<close>, red and blue rotated by \<open>hueShift\<close> and
  capped at 1, green copied.
\<close>

definition cycleColors_body :: "palette \<Rightarrow> nat \<Rightarrow> particle_system \<Rightarrow> particle_system" where
  "cycleColors_body pal i s =
     (let c = pal ! ((i + colorPaletteIndex s) mod length pal);
          hueShift = real (colorPaletteIndex s) * 0.25
      in s\<lparr>targetColors := (targetColors s)
             [i * 3 := min 1 (c ! 0 * cos hueShift + c ! 2 * sin hueShift),
              i * 3 + 1 := c ! 1,
              i * 3 + 2 := min 1 (c ! 2 * cos hueShift - c ! 0 * sin hueShift)]\<rparr>)"

fun cycleColors_loop :: "palette \<Rightarrow> nat \<Rightarrow> particle_system \<Rightarrow> particle_system" where
  "cycleColors_loop pal 0 s = s"
| "cycleColors_loop pal (Suc n) s = cycleColors_body pal n (cycleColors_loop pal n s)"

text \<open>
  When \<open>currentTemplate\<close> names an inherited member, \<open>palette\<close> is that member and
  \<open>c\<close> is \<open>undefined\<close>: the first pass throws at \<open>c[0]\<close> before any write.
\<close>

definition cycleColors :: "particle_system \<times> rng \<Rightarrow> outcome" where
  "cycleColors sr =
     (let (s, r) = sr in
      case js_get SHAPE_COLORS (currentTemplate s) of
        Own palette \<Rightarrow>
          Inr ((cycleColors_loop palette (count s) s)\<lparr>colorPaletteIndex := colorPaletteIndex s + 1\<rparr>, r)
      | Undefined \<Rightarrow>
          Inr ((cycleColors_loop sphere_palette (count s) s)\<lparr>colorPaletteIndex := colorPaletteIndex s + 1\<rparr>, r)
      | Inherited \<Rightarrow>
          if count s = 0 then Inr (s\<lparr>colorPaletteIndex := colorPaletteIndex s + 1\<rparr>, r)
          else Inl (TypeError, s, r))"

section \<open>Observations used in the statements\<close>

text \<open>The buffers have the sizes the constructor allocates for \<open>count\<close> particles.\<close>

definition wf :: "particle_system \<Rightarrow> bool" where
  "wf s = (length (positions s) = count s * 3 \<and> length (velocities s) = count s * 3 \<and>
           length (colors s) = count s * 3 \<and> length (sizes s) = count s \<and>
           length (targetPositions s) = count s * 3 \<and> length (targetColors s) = count s * 3)"

text \<open>
  The quantities of one pass of the integrator, named after its variables: the offset
  \<open>(dx, dy, dz)\<close> from particle \<open>i\<close> to the repulsion point, its squared length
  \<open>distSq\<close>, and the two increments of velocity component \<open>k\<close>: the seek term that is
  added and the repulsion term that is subtracted.
\<close>

definition offset_to :: "real \<Rightarrow> real \<Rightarrow> particle_system \<Rightarrow> nat \<Rightarrow> nat \<Rightarrow> real" where
  "offset_to bx by s i k =
     (if k = 0 then bx - positions s ! (i * 3)
      else if k = 1 then by - positions s ! (i * 3 + 1)
      else 0 - positions s ! (i * 3 + 2))"

definition distSq_to :: "real \<Rightarrow> real \<Rightarrow> particle_system \<Rightarrow> nat \<Rightarrow> real" where
  "distSq_to bx by s i =
     offset_to bx by s i 0 * offset_to bx by s i 0 + offset_to bx by s i 1 * offset_to bx by s i 1
       + offset_to bx by s i 2 * offset_to bx by s i 2"

definition seek_kick :: "real \<Rightarrow> real list \<Rightarrow> particle_system \<Rightarrow> nat \<Rightarrow> nat \<Rightarrow> real" where
  "seek_kick dt tp s i k = (tp ! (i * 3 + k) - positions s ! (i * 3 + k)) * 2.5 * dt"

definition repulsion_kick :: "real \<Rightarrow> real \<Rightarrow> real \<Rightarrow> particle_system \<Rightarrow> nat \<Rightarrow> nat \<Rightarrow> real" where
  "repulsion_kick dt bx by s i k =
     (if distSq_to bx by s i < 50 \<and> distSq_to bx by s i > 0.01
      then offset_to bx by s i k / sqrt (distSq_to bx by s i)
             * ((7 - sqrt (distSq_to bx by s i)) * 3.0) * dt * 6
      else 0)"

text \<open>The state a call leaves behind and whether it returned without throwing.\<close>

definition state_of :: "outcome \<Rightarrow> particle_system" where
  "state_of out = (case out of Inl (e, s, r) \<Rightarrow> s | Inr (s, r) \<Rightarrow> s)"

definition returns :: "outcome \<Rightarrow> bool" where
  "returns out = (case out of Inl e \<Rightarrow> False | Inr sr \<Rightarrow> True)"

text \<open>
  Concrete inputs for the examples: a random source that always returns the same value, a
  system of two particles showing the galaxy (its expansion factor is the one reached after
  one tick with a fully spread hand), and two snapshots of an open hand, one pointing far
  from both particles and one pointing at the origin.
\<close>

definition const_rng :: "real \<Rightarrow> rng" where
  "const_rng q = (\<lambda>n. q)"

definition example_system :: particle_system where
  "example_system =
     \<lparr>count = 2, currentTemplate = ''galaxy'', time = 0, colorPaletteIndex = 0,
      positions = [0, 0, 0, 3, 4, 0], colors = [0.2, 0.5, 1.0, 0.2, 0.5, 1.0],
      sizes = [0.5, 0.5], velocities = [0, 0, 0, 1, 0, 0],
      targetPositions = [10, 0, 0, 3, 4, 0], targetColors = [0.1, 0.7, 1.0, 0.85, 0.3, 1.0],
      uTime = 0, uExpansion = 1.015\<rparr>"

definition open_hand_far :: gestures where
  "open_hand_far = \<lparr>isFist = False, isPinching = False, isOpen = True, isRock = False,
     isPeace = False, isPointing = False, handDetected = True, handSpread = 1,
     pointer = Some (1, 1)\<rparr>"

definition open_hand_near :: gestures where
  "open_hand_near = \<lparr>isFist = False, isPinching = False, isOpen = True, isRock = False,
     isPeace = False, isPointing = False, handDetected = True, handSpread = 1,
     pointer = Some (0, 0)\<rparr>"



text \<open>Every colour channel of the system, current and target, is at most 1.\<close>

definition channels_le_1 :: "particle_system \<Rightarrow> bool" where
  "channels_le_1 s = ((\<forall>c \<in> set (colors s). c \<le> 1) \<and> (\<forall>c \<in> set (targetColors s). c \<le> 1))"

text \<open>\<open>Math.random()\<close> returns values in the interval from 0 (included) to 1 (excluded).\<close>

definition rng_unit :: "rng \<Rightarrow> bool" where
  "rng_unit r = (\<forall>n. 0 \<le> r n \<and> r n < 1)"

text \<open>The Euclidean norm of a point.\<close>

definition norm3 :: "real \<Rightarrow> real \<Rightarrow> real \<Rightarrow> real" where
  "norm3 a b c = sqrt (a\<^sup>2 + b\<^sup>2 + c\<^sup>2)"

text \<open>
  The bounds of the sphere scenario on the target entries of particle \<open>i\<close>: the position
  within 15 plus 0.3 of the origin, each colour channel within 0.1 of the channel of palette
  entry \<open>i mod length\<close> and at most 1.
\<close>

definition sphere_entry_ok :: "palette \<Rightarrow> particle_system \<Rightarrow> nat \<Rightarrow> bool" where
  "sphere_entry_ok pal s i =
     (norm3 (targetPositions s ! (i * 3)) (targetPositions s ! (i * 3 + 1)) (targetPositions s ! (i * 3 + 2))
        \<le> 15 + 0.3
      \<and> (\<forall>k < 3. \<bar>targetColors s ! (i * 3 + k) - pal ! (i mod length pal) ! k\<bar> \<le> 0.1
                 \<and> targetColors s ! (i * 3 + k) \<le> 1))"

section \<open>Values stored in the 32-bit buffers\<close>

text \<open>
  The buffers of the particle system are \<open>Float32Array\<close>s: a write stores the 32-bit
  float nearest to the value written, ties going to the even mantissa. \<open>rne\<close> is that
  rounding to an integer, \<open>float32_exponent\<close> the binary exponent of a value (the
  subnormal range shares the exponent -126), and \<open>fround\<close> the stored value: the value
  rounded to a multiple of \<open>2 ^ (exponent - 23)\<close>. Magnitudes beyond the largest 32-bit
  float, which a write would turn into an infinity, are outside the model.
\<close>

definition rne :: "real \<Rightarrow> int" where
  "rne y =
     (let f = \<lfloor>y\<rfloor>;
          d = y - real_of_int f
      in if d < 1 / 2 then f
         else if 1 / 2 < d then f + 1
         else if even f then f else f + 1)"

definition float32_exponent :: "real \<Rightarrow> int" where
  "float32_exponent v = max \<lfloor>log 2 \<bar>v\<bar>\<rfloor> (- 126)"

definition fround :: "real \<Rightarrow> real" where
  "fround v =
     (if v = 0 then 0
      else (let ulp = 2 powr real_of_int (float32_exponent v - 23)
            in real_of_int (rne (v / ulp)) * ulp))"


text \<open>A write of entry \<open>j\<close>, and of the three entries of a particle.\<close>

definition store_f32 :: "real list \<Rightarrow> nat \<Rightarrow> real list" where
  "store_f32 xs j = xs[j := fround (xs ! j)]"

definition store3_f32 :: "real list \<Rightarrow> nat \<Rightarrow> real list" where
  "store3_f32 xs j = store_f32 (store_f32 (store_f32 xs j) (j + 1)) (j + 2)"

text \<open>
  The methods with the rounding of the buffer writes. A pass of a loop reads the entries
  of its particle from the buffers, computes in local variables and writes each entry once,
  so a pass computes as before and the entries it has written are stored rounded. The clock
  and the expansion uniform are plain numbers and are not rounded.
\<close>

definition setTemplate_body_f32 :: "generator \<Rightarrow> palette \<Rightarrow> nat \<Rightarrow> particle_system \<times> rng \<Rightarrow> particle_system \<times> rng" where
  "setTemplate_body_f32 gen pal i sr =
     (let (s, r) = setTemplate_body gen pal i sr
      in (s\<lparr>targetPositions := store3_f32 (targetPositions s) (i * 3),
            targetColors := store3_f32 (targetColors s) (i * 3)\<rparr>, r))"

fun setTemplate_loop_f32 :: "generator \<Rightarrow> palette \<Rightarrow> nat \<Rightarrow> particle_system \<times> rng \<Rightarrow> particle_system \<times> rng" where
  "setTemplate_loop_f32 gen pal 0 sr = sr"
| "setTemplate_loop_f32 gen pal (Suc n) sr =
     setTemplate_body_f32 gen pal n (setTemplate_loop_f32 gen pal n sr)"

definition setTemplate_inherited_f32 :: "string \<Rightarrow> particle_system \<times> rng \<Rightarrow> outcome" where
  "setTemplate_inherited_f32 templateName sr =
     (if inherited_call_throws templateName then setTemplate_inherited templateName sr
      else (case setTemplate_inherited templateName sr of
              Inl (e, s, r) \<Rightarrow> Inl (e, s\<lparr>targetPositions := store3_f32 (targetPositions s) 0\<rparr>, r)
            | Inr sr' \<Rightarrow> Inr sr'))"

definition setTemplate_f32 :: "string \<Rightarrow> particle_system \<times> rng \<Rightarrow> outcome" where
  "setTemplate_f32 templateName sr =
     (let (s, r) = sr in
      case js_get parametric_tbl templateName of
        Undefined \<Rightarrow> Inr (s, r)
      | Own gen \<Rightarrow>
          (let s1 = s\<lparr>currentTemplate := templateName\<rparr>;
               palette = (case SHAPE_COLORS templateName of Some p \<Rightarrow> p | None \<Rightarrow> sphere_palette)
           in Inr (setTemplate_loop_f32 gen palette (count s1) (s1, r)))
      | Inherited \<Rightarrow>
          (let s1 = s\<lparr>currentTemplate := templateName\<rparr>
           in if count s1 = 0 then Inr (s1, r) else setTemplate_inherited_f32 templateName (s1, r)))"

definition switch_to_f32 :: "string \<Rightarrow> particle_system \<times> rng \<Rightarrow> outcome" where
  "switch_to_f32 name sr = (if currentTemplate (fst sr) \<noteq> name then setTemplate_f32 name sr else Inr sr)"

definition gesture_template_f32 :: "gestures \<Rightarrow> particle_system \<times> rng \<Rightarrow> outcome" where
  "gesture_template_f32 g sr =
     (if isFist g then switch_to_f32 ''heart'' sr
      else if isPinching g then switch_to_f32 ''dna'' sr
      else if isOpen g then switch_to_f32 ''galaxy'' sr
      else if isRock g then switch_to_f32 ''saturn'' sr
      else if isPeace g then switch_to_f32 ''flower'' sr
      else if isPointing g then switch_to_f32 ''fireworks'' sr
      else Inr sr)"

definition update_body_f32 :: "real \<Rightarrow> real \<Rightarrow> real \<Rightarrow> nat \<Rightarrow> particle_system \<Rightarrow> particle_system" where
  "update_body_f32 dt bx by i s =
     (let t = update_body dt bx by i s
      in t\<lparr>positions := store3_f32 (positions t) (i * 3),
           velocities := store3_f32 (velocities t) (i * 3),
           colors := store3_f32 (colors t) (i * 3),
           sizes := store_f32 (sizes t) i\<rparr>)"

fun update_loop_f32 :: "real \<Rightarrow> real \<Rightarrow> real \<Rightarrow> nat \<Rightarrow> particle_system \<Rightarrow> particle_system" where
  "update_loop_f32 dt bx by 0 s = s"
| "update_loop_f32 dt bx by (Suc n) s = update_body_f32 dt bx by n (update_loop_f32 dt bx by n s)"

definition update_f32 :: "real \<Rightarrow> gestures option \<Rightarrow> particle_system \<times> rng \<Rightarrow> outcome" where
  "update_f32 dt gestures_arg sr =
     (let (s, r) = sr;
          g = gestures_or_empty gestures_arg;
          s = s\<lparr>time := time s + dt\<rparr>;
          s = s\<lparr>uTime := time s\<rparr>
      in case gesture_template_f32 g (s, r) of
           Inl e \<Rightarrow> Inl e
         | Inr (s, r) \<Rightarrow>
             (let targetExpansion = (if handDetected g then 0.7 + handSpread g * 0.8 else 1.0);
                  currentExp = uExpansion s;
                  s = s\<lparr>uExpansion := uExpansion s + (targetExpansion - currentExp) * 0.03\<rparr>;
                  bx = pointer_bx g;
                  by = pointer_by g
              in Inr (update_loop_f32 dt bx by (count s) s, r)))"






section \<open>Frame and loop lemmas\<close>

lemma setTemplate_body_frame:
  "setTemplate_body gen pal i (s, r) = (s', r') \<Longrightarrow>
     currentTemplate s' = currentTemplate s \<and> positions s' = positions s \<and>
     velocities s' = velocities s \<and> colors s' = colors s \<and> sizes s' = sizes s \<and>
     count s' = count s \<and> time s' = time s \<and> uTime s' = uTime s \<and>
     uExpansion s' = uExpansion s \<and> colorPaletteIndex s' = colorPaletteIndex s \<and>
     length (targetPositions s') = length (targetPositions s) \<and>
     length (targetColors s') = length (targetColors s)"
  by (auto simp add: setTemplate_body_def Let_def split: prod.splits)

lemma setTemplate_loop_frame:
  "setTemplate_loop gen pal n (s, r) = (s', r') \<Longrightarrow>
     currentTemplate s' = currentTemplate s \<and> positions s' = positions s \<and>
     velocities s' = velocities s \<and> colors s' = colors s \<and> sizes s' = sizes s \<and>
     count s' = count s \<and> time s' = time s \<and> uTime s' = uTime s \<and>
     uExpansion s' = uExpansion s \<and> colorPaletteIndex s' = colorPaletteIndex s \<and>
     length (targetPositions s') = length (targetPositions s) \<and>
     length (targetColors s') = length (targetColors s)"
proof (induction n arbitrary: s' r')
  case 0
  then show ?case by simp
next
  case (Suc n)
  obtain s1 r1 where l: "setTemplate_loop gen pal n (s, r) = (s1, r1)"
    by (cases "setTemplate_loop gen pal n (s, r)")
  with Suc.prems have b: "setTemplate_body gen pal n (s1, r1) = (s', r')" by simp
  show ?case using Suc.IH[OF l] setTemplate_body_frame[OF b] by simp
qed

text \<open>A switch to one of the nine shape names returns normally.\<close>

lemma setTemplate_own:
  assumes "parametric_tbl name = Some gen"
  shows "setTemplate name (s, r) =
           Inr (setTemplate_loop gen (case SHAPE_COLORS name of Some p \<Rightarrow> p | None \<Rightarrow> sphere_palette)
                  (count s) (s\<lparr>currentTemplate := name\<rparr>, r))"
  using assms by (simp add: setTemplate_def js_get_def Let_def)

lemma setTemplate_own_frame:
  assumes "parametric_tbl name = Some gen"
  shows "\<exists>s' r'. setTemplate name (s, r) = Inr (s', r') \<and>
     currentTemplate s' = name \<and> positions s' = positions s \<and>
     velocities s' = velocities s \<and> colors s' = colors s \<and> sizes s' = sizes s \<and>
     count s' = count s \<and> time s' = time s \<and> uTime s' = uTime s \<and>
     uExpansion s' = uExpansion s \<and> colorPaletteIndex s' = colorPaletteIndex s \<and>
     length (targetPositions s') = length (targetPositions s) \<and>
     length (targetColors s') = length (targetColors s)"
proof -
  define pal where "pal = (case SHAPE_COLORS name of Some p \<Rightarrow> p | None \<Rightarrow> sphere_palette)"
  have p: "setTemplate name (s, r) = Inr (setTemplate_loop gen pal (count s) (s\<lparr>currentTemplate := name\<rparr>, r))"
    using setTemplate_own[OF assms] by (simp add: pal_def)
  obtain s' r' where l: "setTemplate_loop gen pal (count s) (s\<lparr>currentTemplate := name\<rparr>, r) = (s', r')"
    by (cases "setTemplate_loop gen pal (count s) (s\<lparr>currentTemplate := name\<rparr>, r)")
  show ?thesis using p l setTemplate_loop_frame[OF l] by simp
qed

lemma switch_to_frame:
  assumes "parametric_tbl name = Some gen"
  shows "\<exists>s' r'. switch_to name (s, r) = Inr (s', r') \<and>
     currentTemplate s' = name \<and> positions s' = positions s \<and>
     velocities s' = velocities s \<and> colors s' = colors s \<and> sizes s' = sizes s \<and>
     count s' = count s \<and> time s' = time s \<and> uTime s' = uTime s \<and>
     uExpansion s' = uExpansion s \<and> colorPaletteIndex s' = colorPaletteIndex s \<and>
     length (targetPositions s') = length (targetPositions s) \<and>
     length (targetColors s') = length (targetColors s)"
proof (cases "currentTemplate s = name")
  case True
  then show ?thesis by (simp add: switch_to_def)
next
  case False
  then show ?thesis using setTemplate_own_frame[OF assms, of s r] by (simp add: switch_to_def)
qed

text \<open>The shape a gesture snapshot selects, in the order of the \<open>if\<close> chain.\<close>

lemma gesture_template_frame:
  "\<exists>s' r'. gesture_template g (s, r) = Inr (s', r') \<and>
     currentTemplate s' =
       (if isFist g then ''heart'' else if isPinching g then ''dna''
        else if isOpen g then ''galaxy'' else if isRock g then ''saturn''
        else if isPeace g then ''flower'' else if isPointing g then ''fireworks''
        else currentTemplate s) \<and>
     positions s' = positions s \<and>
     velocities s' = velocities s \<and> colors s' = colors s \<and> sizes s' = sizes s \<and>
     count s' = count s \<and> time s' = time s \<and> uTime s' = uTime s \<and>
     uExpansion s' = uExpansion s \<and> colorPaletteIndex s' = colorPaletteIndex s \<and>
     length (targetPositions s') = length (targetPositions s) \<and>
     length (targetColors s') = length (targetColors s)"
proof -
  have h: "parametric_tbl ''heart'' = Some heart" "parametric_tbl ''dna'' = Some dna"
    "parametric_tbl ''galaxy'' = Some galaxy" "parametric_tbl ''saturn'' = Some saturn"
    "parametric_tbl ''flower'' = Some flower" "parametric_tbl ''fireworks'' = Some fireworks"
    by (simp_all add: parametric_tbl_def)
  show ?thesis
    unfolding gesture_template_def
    using switch_to_frame[OF h(1), of s r] switch_to_frame[OF h(2), of s r]
      switch_to_frame[OF h(3), of s r] switch_to_frame[OF h(4), of s r]
      switch_to_frame[OF h(5), of s r] switch_to_frame[OF h(6), of s r]
    by (simp del: ex_simps)
qed

lemma gesture_template_none:
  "\<not> isFist g \<Longrightarrow> \<not> isPinching g \<Longrightarrow> \<not> isOpen g \<Longrightarrow> \<not> isRock g \<Longrightarrow> \<not> isPeace g \<Longrightarrow>
   \<not> isPointing g \<Longrightarrow> gesture_template g sr = Inr sr"
  by (simp add: gesture_template_def)

lemma update_body_frame:
  "currentTemplate (update_body dt bx by i s) = currentTemplate s"
  "targetPositions (update_body dt bx by i s) = targetPositions s"
  "targetColors (update_body dt bx by i s) = targetColors s"
  "count (update_body dt bx by i s) = count s"
  "time (update_body dt bx by i s) = time s"
  "uTime (update_body dt bx by i s) = uTime s"
  "uExpansion (update_body dt bx by i s) = uExpansion s"
  "colorPaletteIndex (update_body dt bx by i s) = colorPaletteIndex s"
  by (simp_all add: update_body_def Let_def)

lemma update_loop_frame:
  "currentTemplate (update_loop dt bx by n s) = currentTemplate s"
  "targetPositions (update_loop dt bx by n s) = targetPositions s"
  "targetColors (update_loop dt bx by n s) = targetColors s"
  "count (update_loop dt bx by n s) = count s"
  "time (update_loop dt bx by n s) = time s"
  "uTime (update_loop dt bx by n s) = uTime s"
  "uExpansion (update_loop dt bx by n s) = uExpansion s"
  "colorPaletteIndex (update_loop dt bx by n s) = colorPaletteIndex s"
  by (induction n) (simp_all add: update_body_frame)

lemma update_body_length:
  "length (positions (update_body dt bx by i s)) = length (positions s)"
  "length (velocities (update_body dt bx by i s)) = length (velocities s)"
  "length (colors (update_body dt bx by i s)) = length (colors s)"
  "length (sizes (update_body dt bx by i s)) = length (sizes s)"
  by (simp_all add: update_body_def Let_def)

lemma update_loop_length:
  "length (positions (update_loop dt bx by n s)) = length (positions s)"
  "length (velocities (update_loop dt bx by n s)) = length (velocities s)"
  "length (colors (update_loop dt bx by n s)) = length (colors s)"
  "length (sizes (update_loop dt bx by n s)) = length (sizes s)"
  by (induction n) (simp_all add: update_body_length)

lemma update_body_other:
  "j < i * 3 \<or> i * 3 + 2 < j \<Longrightarrow> positions (update_body dt bx by i s) ! j = positions s ! j"
  "j < i * 3 \<or> i * 3 + 2 < j \<Longrightarrow> velocities (update_body dt bx by i s) ! j = velocities s ! j"
  "j < i * 3 \<or> i * 3 + 2 < j \<Longrightarrow> colors (update_body dt bx by i s) ! j = colors s ! j"
  "m \<noteq> i \<Longrightarrow> sizes (update_body dt bx by i s) ! m = sizes s ! m"
  by (auto simp add: update_body_def Let_def)

lemma update_loop_untouched:
  "n * 3 \<le> j \<Longrightarrow> positions (update_loop dt bx by n s) ! j = positions s ! j"
  "n * 3 \<le> j \<Longrightarrow> velocities (update_loop dt bx by n s) ! j = velocities s ! j"
  "n * 3 \<le> j \<Longrightarrow> colors (update_loop dt bx by n s) ! j = colors s ! j"
  "n \<le> m \<Longrightarrow> sizes (update_loop dt bx by n s) ! m = sizes s ! m"
  by (induction n) (simp_all add: update_body_other)

text \<open>The body reads only the entries of its own particle.\<close>

lemma update_body_cong:
  assumes "\<And>k. k < 3 \<Longrightarrow> positions t ! (i * 3 + k) = positions s ! (i * 3 + k)"
      and "\<And>k. k < 3 \<Longrightarrow> velocities t ! (i * 3 + k) = velocities s ! (i * 3 + k)"
      and "\<And>k. k < 3 \<Longrightarrow> colors t ! (i * 3 + k) = colors s ! (i * 3 + k)"
      and "targetPositions t = targetPositions s" "targetColors t = targetColors s"
      and "time t = time s"
      and "length (positions t) = length (positions s)"
      and "length (velocities t) = length (velocities s)"
      and "length (colors t) = length (colors s)"
      and "length (sizes t) = length (sizes s)"
      and "i * 3 + 2 < length (positions s)" "i * 3 + 2 < length (velocities s)"
      and "i * 3 + 2 < length (colors s)" "i < length (sizes s)"
      and "k < 3"
  shows "positions (update_body dt bx by i t) ! (i * 3 + k) = positions (update_body dt bx by i s) ! (i * 3 + k)"
    and "velocities (update_body dt bx by i t) ! (i * 3 + k) = velocities (update_body dt bx by i s) ! (i * 3 + k)"
    and "colors (update_body dt bx by i t) ! (i * 3 + k) = colors (update_body dt bx by i s) ! (i * 3 + k)"
    and "sizes (update_body dt bx by i t) ! i = sizes (update_body dt bx by i s) ! i"
proof -
  have p: "positions t ! (i * 3) = positions s ! (i * 3)" "positions t ! (i * 3 + 1) = positions s ! (i * 3 + 1)"
      "positions t ! (i * 3 + 2) = positions s ! (i * 3 + 2)"
    using assms(1)[of 0] assms(1)[of 1] assms(1)[of 2] by simp_all
  have v: "velocities t ! (i * 3) = velocities s ! (i * 3)" "velocities t ! (i * 3 + 1) = velocities s ! (i * 3 + 1)"
      "velocities t ! (i * 3 + 2) = velocities s ! (i * 3 + 2)"
    using assms(2)[of 0] assms(2)[of 1] assms(2)[of 2] by simp_all
  have c: "colors t ! (i * 3) = colors s ! (i * 3)" "colors t ! (i * 3 + 1) = colors s ! (i * 3 + 1)"
      "colors t ! (i * 3 + 2) = colors s ! (i * 3 + 2)"
    using assms(3)[of 0] assms(3)[of 1] assms(3)[of 2] by simp_all
  have k: "k = 0 \<or> k = 1 \<or> k = 2" using \<open>k < 3\<close> by auto
  show "positions (update_body dt bx by i t) ! (i * 3 + k) = positions (update_body dt bx by i s) ! (i * 3 + k)"
    using k assms(4-14) p v c by (auto simp add: update_body_def Let_def nth_list_update)
  show "velocities (update_body dt bx by i t) ! (i * 3 + k) = velocities (update_body dt bx by i s) ! (i * 3 + k)"
    using k assms(4-14) p v c by (auto simp add: update_body_def Let_def nth_list_update)
  show "colors (update_body dt bx by i t) ! (i * 3 + k) = colors (update_body dt bx by i s) ! (i * 3 + k)"
    using k assms(4-14) p v c by (auto simp add: update_body_def Let_def nth_list_update)
  show "sizes (update_body dt bx by i t) ! i = sizes (update_body dt bx by i s) ! i"
    using assms(4-14) by (auto simp add: update_body_def Let_def nth_list_update)
qed

lemma update_body_velocity:
  assumes "i * 3 + 2 < length (velocities s)" "k < 3"
  shows "velocities (update_body dt bx by i s) ! (i * 3 + k) =
           (velocities s ! (i * 3 + k) + seek_kick dt (targetPositions s) s i k
              - repulsion_kick dt bx by s i k) * 0.88"
proof -
  have k: "k = 0 \<or> k = 1 \<or> k = 2" using \<open>k < 3\<close> by auto
  show ?thesis using k assms(1)
    by (auto simp add: update_body_def Let_def seek_kick_def repulsion_kick_def distSq_to_def
          offset_to_def isNaN_def)
qed

lemma update_body_color:
  assumes "i * 3 + 2 < length (colors s)" "k < 3"
  shows "colors (update_body dt bx by i s) ! (i * 3 + k) =
           (if distSq_to bx by s i < 50 \<and> distSq_to bx by s i > 0.01
            then min 1 (colors s ! (i * 3 + k) + 0.15)
            else colors s ! (i * 3 + k) + (targetColors s ! (i * 3 + k) - colors s ! (i * 3 + k)) * 0.025)"
proof -
  have k: "k = 0 \<or> k = 1 \<or> k = 2" using \<open>k < 3\<close> by auto
  show ?thesis using k assms(1)
    by (auto simp add: update_body_def Let_def distSq_to_def offset_to_def)
qed

lemma update_body_position:
  assumes "i * 3 + 2 < length (positions s)" "i * 3 + 2 < length (velocities s)" "k < 3"
  shows "positions (update_body dt bx by i s) ! (i * 3 + k) =
           positions s ! (i * 3 + k) + velocities (update_body dt bx by i s) ! (i * 3 + k) * dt"
proof -
  have k: "k = 0 \<or> k = 1 \<or> k = 2" using \<open>k < 3\<close> by auto
  show ?thesis using k assms(1,2)
    by (auto simp add: update_body_def Let_def)
qed

lemma update_body_size:
  assumes "i < length (sizes s)"
  shows "sizes (update_body dt bx by i s) ! i = 0.3 + 0.4 * sin (time s * 1.5 + real i * 0.01)"
  using assms by (simp add: update_body_def Let_def)

lemma update_loop_particle:
  assumes "i < n" "n * 3 \<le> length (positions s)" "n * 3 \<le> length (velocities s)"
      "n * 3 \<le> length (colors s)" "n \<le> length (sizes s)" "k < 3"
  shows "positions (update_loop dt bx by n s) ! (i * 3 + k) = positions (update_body dt bx by i s) ! (i * 3 + k)
       \<and> velocities (update_loop dt bx by n s) ! (i * 3 + k) = velocities (update_body dt bx by i s) ! (i * 3 + k)
       \<and> colors (update_loop dt bx by n s) ! (i * 3 + k) = colors (update_body dt bx by i s) ! (i * 3 + k)
       \<and> sizes (update_loop dt bx by n s) ! i = sizes (update_body dt bx by i s) ! i"
  using assms
proof (induction n)
  case 0
  then show ?case by simp
next
  case (Suc n)
  let ?t = "update_loop dt bx by n s"
  show ?case
  proof (cases "i = n")
    case True
    have "positions (update_body dt bx by i ?t) ! (i * 3 + k) = positions (update_body dt bx by i s) ! (i * 3 + k)"
      "velocities (update_body dt bx by i ?t) ! (i * 3 + k) = velocities (update_body dt bx by i s) ! (i * 3 + k)"
      "colors (update_body dt bx by i ?t) ! (i * 3 + k) = colors (update_body dt bx by i s) ! (i * 3 + k)"
      "sizes (update_body dt bx by i ?t) ! i = sizes (update_body dt bx by i s) ! i"
      using Suc.prems True
      by (intro update_body_cong; simp add: update_loop_untouched update_loop_frame update_loop_length)+
    then show ?thesis using True by simp
  next
    case False
    then have lt: "i < n" using Suc.prems by simp
    have ih: "positions ?t ! (i * 3 + k) = positions (update_body dt bx by i s) ! (i * 3 + k)
       \<and> velocities ?t ! (i * 3 + k) = velocities (update_body dt bx by i s) ! (i * 3 + k)
       \<and> colors ?t ! (i * 3 + k) = colors (update_body dt bx by i s) ! (i * 3 + k)
       \<and> sizes ?t ! i = sizes (update_body dt bx by i s) ! i"
      using Suc.IH lt Suc.prems by simp
    have o: "i * 3 + k < n * 3" using lt \<open>k < 3\<close> by simp
    show ?thesis using ih o False by (simp add: update_body_other)
  qed
qed

text \<open>What \<open>update\<close> does as a whole: the template step, then the loop.\<close>

lemma update_result:
  "\<exists>s1 r1. gesture_template (gestures_or_empty ga) (s\<lparr>time := time s + dt, uTime := time s + dt\<rparr>, r) = Inr (s1, r1)
     \<and> update dt ga (s, r) =
         Inr (update_loop dt (pointer_bx (gestures_or_empty ga)) (pointer_by (gestures_or_empty ga)) (count s1)
                (s1\<lparr>uExpansion := uExpansion s1 +
                     ((if handDetected (gestures_or_empty ga) then 0.7 + handSpread (gestures_or_empty ga) * 0.8 else 1.0)
                        - uExpansion s1) * 0.03\<rparr>), r1)"
proof -
  obtain s1 r1 where g: "gesture_template (gestures_or_empty ga) (s\<lparr>time := time s + dt, uTime := time s + dt\<rparr>, r) = Inr (s1, r1)"
    using gesture_template_frame[of "gestures_or_empty ga" "s\<lparr>time := time s + dt, uTime := time s + dt\<rparr>" r] by blast
  then show ?thesis by (simp add: update_def Let_def)
qed

lemma update_particle:
  fixes s :: particle_system and dt :: real and ga :: "gestures option" and r :: rng
  assumes w: "wf s" and i: "i < count s" and k: "k < 3"
  defines "s' \<equiv> state_of (update dt ga (s, r))"
  defines "bx \<equiv> pointer_bx (gestures_or_empty ga)" and "by \<equiv> pointer_by (gestures_or_empty ga)"
  shows "velocities s' ! (i * 3 + k) =
           (velocities s ! (i * 3 + k) + seek_kick dt (targetPositions s') s i k
              - repulsion_kick dt bx by s i k) * 0.88"
    and "colors s' ! (i * 3 + k) =
           (if distSq_to bx by s i < 50 \<and> distSq_to bx by s i > 0.01
            then min 1 (colors s ! (i * 3 + k) + 0.15)
            else colors s ! (i * 3 + k) + (targetColors s' ! (i * 3 + k) - colors s ! (i * 3 + k)) * 0.025)"
    and "positions s' ! (i * 3 + k) = positions s ! (i * 3 + k) + velocities s' ! (i * 3 + k) * dt"
    and "sizes s' ! i = 0.3 + 0.4 * sin ((time s + dt) * 1.5 + real i * 0.01)"
proof -
  let ?g = "gestures_or_empty ga"
  let ?s0 = "s\<lparr>time := time s + dt, uTime := time s + dt\<rparr>"
  obtain s1 r1 where g: "gesture_template ?g (?s0, r) = Inr (s1, r1)"
    and f: "positions s1 = positions ?s0" "velocities s1 = velocities ?s0" "colors s1 = colors ?s0"
      "sizes s1 = sizes ?s0" "count s1 = count ?s0" "time s1 = time ?s0"
      "length (targetPositions s1) = length (targetPositions ?s0)"
      "length (targetColors s1) = length (targetColors ?s0)"
    using gesture_template_frame[of ?g ?s0 r] by blast
  define s2 where "s2 = s1\<lparr>uExpansion := uExpansion s1 +
       ((if handDetected ?g then 0.7 + handSpread ?g * 0.8 else 1.0) - uExpansion s1) * 0.03\<rparr>"
  have u: "update dt ga (s, r) = Inr (update_loop dt bx by (count s) s2, r1)"
    using update_result[of ga s dt r] g f(5) by (simp add: s2_def bx_def by_def)
  have s': "s' = update_loop dt bx by (count s) s2"
    by (simp add: s'_def u state_of_def)
  have f2: "positions s2 = positions s" "velocities s2 = velocities s" "colors s2 = colors s"
      "sizes s2 = sizes s" "time s2 = time s + dt"
    using f by (simp_all add: s2_def)
  have t: "targetPositions s' = targetPositions s2" "targetColors s' = targetColors s2"
    by (simp_all add: s' update_loop_frame)
  have len: "count s * 3 \<le> length (positions s2)" "count s * 3 \<le> length (velocities s2)"
      "count s * 3 \<le> length (colors s2)" "count s \<le> length (sizes s2)"
    using w by (simp_all add: f2 wf_def)
  have inr: "i * 3 + 2 < length (positions s2)" "i * 3 + 2 < length (velocities s2)"
      "i * 3 + 2 < length (colors s2)" "i < length (sizes s2)"
    using len i by simp_all
  note p = update_loop_particle[OF i len k, of dt bx "by"]
  have obs: "seek_kick dt tp s2 i k = seek_kick dt tp s i k"
      "repulsion_kick dt bx by s2 i k = repulsion_kick dt bx by s i k"
      "distSq_to bx by s2 i = distSq_to bx by s i" for tp
    by (simp_all add: seek_kick_def repulsion_kick_def distSq_to_def offset_to_def f2)
  show "velocities s' ! (i * 3 + k) =
           (velocities s ! (i * 3 + k) + seek_kick dt (targetPositions s') s i k
              - repulsion_kick dt bx by s i k) * 0.88"
    using p update_body_velocity[OF inr(2) k, of dt bx "by"] by (simp add: s' t obs f2 update_loop_frame)
  show "colors s' ! (i * 3 + k) =
           (if distSq_to bx by s i < 50 \<and> distSq_to bx by s i > 0.01
            then min 1 (colors s ! (i * 3 + k) + 0.15)
            else colors s ! (i * 3 + k) + (targetColors s' ! (i * 3 + k) - colors s ! (i * 3 + k)) * 0.025)"
    using p update_body_color[OF inr(3) k, of dt bx "by"] by (simp add: s' t obs f2 update_loop_frame)
  show "positions s' ! (i * 3 + k) = positions s ! (i * 3 + k) + velocities s' ! (i * 3 + k) * dt"
    using p update_body_position[OF inr(1,2) k, of dt bx "by"] by (simp add: s' f2)
  show "sizes s' ! i = 0.3 + 0.4 * sin ((time s + dt) * 1.5 + real i * 0.01)"
    using p update_body_size[OF inr(4), of dt bx "by"] by (simp add: s' f2)
qed

lemma update_frame:
  fixes s :: particle_system and dt :: real and ga :: "gestures option" and r :: rng
  defines "s' \<equiv> state_of (update dt ga (s, r))"
  shows "returns (update dt ga (s, r))"
    and "count s' = count s"
    and "time s' = time s + dt"
    and "uTime s' = time s + dt"
    and "colorPaletteIndex s' = colorPaletteIndex s"
    and "uExpansion s' = uExpansion s +
           ((if handDetected (gestures_or_empty ga) then 0.7 + handSpread (gestures_or_empty ga) * 0.8 else 1.0)
              - uExpansion s) * 0.03"
    and "currentTemplate s' =
           (let g = gestures_or_empty ga in
            if isFist g then ''heart'' else if isPinching g then ''dna''
            else if isOpen g then ''galaxy'' else if isRock g then ''saturn''
            else if isPeace g then ''flower'' else if isPointing g then ''fireworks''
            else currentTemplate s)"
    and "length (positions s') = length (positions s)"
    and "length (velocities s') = length (velocities s)"
    and "length (colors s') = length (colors s)"
    and "length (sizes s') = length (sizes s)"
    and "length (targetPositions s') = length (targetPositions s)"
    and "length (targetColors s') = length (targetColors s)"
proof -
  let ?g = "gestures_or_empty ga"
  let ?s0 = "s\<lparr>time := time s + dt, uTime := time s + dt\<rparr>"
  from gesture_template_frame[of ?g ?s0 r, unfolded ex_simps]
  obtain s1 r1 where g: "gesture_template ?g (?s0, r) = Inr (s1, r1)"
    and f: "currentTemplate s1 =
       (if isFist ?g then ''heart'' else if isPinching ?g then ''dna''
        else if isOpen ?g then ''galaxy'' else if isRock ?g then ''saturn''
        else if isPeace ?g then ''flower'' else if isPointing ?g then ''fireworks''
        else currentTemplate ?s0)"
      "positions s1 = positions ?s0" "velocities s1 = velocities ?s0" "colors s1 = colors ?s0"
      "sizes s1 = sizes ?s0" "count s1 = count ?s0" "time s1 = time ?s0" "uTime s1 = uTime ?s0"
      "uExpansion s1 = uExpansion ?s0" "colorPaletteIndex s1 = colorPaletteIndex ?s0"
      "length (targetPositions s1) = length (targetPositions ?s0)"
      "length (targetColors s1) = length (targetColors ?s0)"
    by blast
  define s2 where "s2 = s1\<lparr>uExpansion := uExpansion s1 +
       ((if handDetected ?g then 0.7 + handSpread ?g * 0.8 else 1.0) - uExpansion s1) * 0.03\<rparr>"
  have u: "update dt ga (s, r) = Inr (update_loop dt (pointer_bx ?g) (pointer_by ?g) (count s) s2, r1)"
    using update_result[of ga s dt r] g f(6) by (simp add: s2_def)
  have s': "s' = update_loop dt (pointer_bx ?g) (pointer_by ?g) (count s) s2"
    by (simp add: s'_def u state_of_def)
  show "returns (update dt ga (s, r))" by (simp add: u returns_def)
  show "count s' = count s" by (simp add: s' update_loop_frame s2_def f)
  show "time s' = time s + dt" by (simp add: s' update_loop_frame s2_def f)
  show "uTime s' = time s + dt" by (simp add: s' update_loop_frame s2_def f)
  show "colorPaletteIndex s' = colorPaletteIndex s" by (simp add: s' update_loop_frame s2_def f)
  show "uExpansion s' = uExpansion s +
           ((if handDetected ?g then 0.7 + handSpread ?g * 0.8 else 1.0) - uExpansion s) * 0.03"
    by (simp add: s' update_loop_frame s2_def f)
  show "currentTemplate s' =
           (let g = gestures_or_empty ga in
            if isFist g then ''heart'' else if isPinching g then ''dna''
            else if isOpen g then ''galaxy'' else if isRock g then ''saturn''
            else if isPeace g then ''flower'' else if isPointing g then ''fireworks''
            else currentTemplate s)"
    using f(1) by (simp add: s' update_loop_frame s2_def Let_def)
  show "length (positions s') = length (positions s)" by (simp add: s' update_loop_length s2_def f)
  show "length (velocities s') = length (velocities s)" by (simp add: s' update_loop_length s2_def f)
  show "length (colors s') = length (colors s)" by (simp add: s' update_loop_length s2_def f)
  show "length (sizes s') = length (sizes s)" by (simp add: s' update_loop_length s2_def f)
  show "length (targetPositions s') = length (targetPositions s)" using f by (simp add: s' update_loop_frame s2_def)
  show "length (targetColors s') = length (targetColors s)" using f by (simp add: s' update_loop_frame s2_def)
qed

lemma update_wf: "wf s \<Longrightarrow> wf (state_of (update dt ga (s, r)))"
  by (simp add: wf_def update_frame)

lemma wf_example: "wf example_system"
  by (simp add: wf_def example_system_def)

lemmas example_defs = example_system_def const_rng_def open_hand_far_def open_hand_near_def
  update_def update_body_def gesture_template_def switch_to_def gestures_or_empty_def
  no_gestures_def pointer_bx_def pointer_by_def hasPointer_def state_of_def returns_def
  isNaN_def Let_def numeral_2_eq_2

lemma sqrt_25: "sqrt 25 = 5"
  by (rule real_sqrt_unique) simp_all

section \<open>The expansion factor does not reach the targets\<close>

lemma setTemplate_body_uExpansion:
  "setTemplate_body gen pal i (s\<lparr>uExpansion := e\<rparr>, r) =
     ((fst (setTemplate_body gen pal i (s, r)))\<lparr>uExpansion := e\<rparr>, snd (setTemplate_body gen pal i (s, r)))"
  unfolding setTemplate_body_def Let_def split_beta fst_conv snd_conv
  by simp

lemma setTemplate_loop_uExpansion:
  "setTemplate_loop gen pal n (s\<lparr>uExpansion := e\<rparr>, r) =
     ((fst (setTemplate_loop gen pal n (s, r)))\<lparr>uExpansion := e\<rparr>, snd (setTemplate_loop gen pal n (s, r)))"
proof (induction n)
  case 0
  then show ?case by simp
next
  case (Suc n)
  obtain s1 r1 where l: "setTemplate_loop gen pal n (s, r) = (s1, r1)"
    by (cases "setTemplate_loop gen pal n (s, r)")
  show ?case using Suc by (simp add: l setTemplate_body_uExpansion)
qed

lemma setTemplate_uExpansion:
  "targetPositions (state_of (setTemplate name (s\<lparr>uExpansion := e\<rparr>, r)))
     = targetPositions (state_of (setTemplate name (s, r)))"
proof (cases "js_get parametric_tbl name")
  case (Own gen)
  have c: "s\<lparr>uExpansion := e, currentTemplate := name\<rparr> = s\<lparr>currentTemplate := name, uExpansion := e\<rparr>"
    by simp
  show ?thesis using Own
    by (simp add: setTemplate_def state_of_def Let_def split_beta c setTemplate_loop_uExpansion
          del: particle_system.update_convs)
next
  case Inherited
  then show ?thesis
    by (simp add: setTemplate_def setTemplate_inherited_def state_of_def Let_def split_beta)
next
  case Undefined
  then show ?thesis by (simp add: setTemplate_def state_of_def)
qed

lemma gesture_template_uExpansion:
  "targetPositions (state_of (gesture_template g (s\<lparr>uExpansion := e\<rparr>, r)))
     = targetPositions (state_of (gesture_template g (s, r)))"
  using setTemplate_uExpansion[where s = s and e = e and r = r]
  by (simp add: gesture_template_def switch_to_def state_of_def)

lemma update_targetPositions:
  "targetPositions (state_of (update dt ga (s, r)))
     = targetPositions (state_of (gesture_template (gestures_or_empty ga)
          (s\<lparr>time := time s + dt, uTime := time s + dt\<rparr>, r)))"
  using update_result[of ga s dt r]
  by (auto simp add: state_of_def update_loop_frame)

lemma update_targetPositions_uExpansion:
  "targetPositions (state_of (update dt ga (s\<lparr>uExpansion := e\<rparr>, r)))
     = targetPositions (state_of (update dt ga (s, r)))"
proof -
  have c: "s\<lparr>uExpansion := e, time := time s + dt, uTime := time s + dt\<rparr>
             = s\<lparr>time := time s + dt, uTime := time s + dt, uExpansion := e\<rparr>"
    by simp
  show ?thesis
    unfolding update_targetPositions
    using gesture_template_uExpansion[where g = "gestures_or_empty ga"
        and s = "s\<lparr>time := time s + dt, uTime := time s + dt\<rparr>" and e = e and r = r]
    by (simp add: c del: particle_system.update_convs)
qed

lemma update_velocity_uExpansion:
  assumes "wf s" and "i < count s" and "k < 3"
  shows "velocities (state_of (update dt ga (s\<lparr>uExpansion := e\<rparr>, r))) ! (i * 3 + k)
           = velocities (state_of (update dt ga (s, r))) ! (i * 3 + k)"
proof -
  have w: "wf (s\<lparr>uExpansion := e\<rparr>)" using assms(1) by (simp add: wf_def)
  have c: "i < count (s\<lparr>uExpansion := e\<rparr>)" using assms(2) by simp
  have v: "velocities (s\<lparr>uExpansion := e\<rparr>) = velocities s" by simp
  have o: "seek_kick dt tp (s\<lparr>uExpansion := e\<rparr>) i k = seek_kick dt tp s i k"
      "repulsion_kick dt bx by (s\<lparr>uExpansion := e\<rparr>) i k = repulsion_kick dt bx by s i k" for tp bx "by"
    by (simp_all add: seek_kick_def repulsion_kick_def distSq_to_def offset_to_def)
  have "velocities (state_of (update dt ga (s\<lparr>uExpansion := e\<rparr>, r))) ! (i * 3 + k)
          = (velocities s ! (i * 3 + k) + seek_kick dt (targetPositions (state_of (update dt ga (s, r)))) s i k
              - repulsion_kick dt (pointer_bx (gestures_or_empty ga)) (pointer_by (gestures_or_empty ga)) s i k) * 0.88"
    using update_particle(1)[OF w c assms(3), of dt ga r]
    by (simp only: update_targetPositions_uExpansion o v)
  then show ?thesis
    using update_particle(1)[OF assms, of dt ga r] by (simp only:)
qed

section \<open>The claims about update\<close>

text \<open>
  C1, as the code has it: for every particle of a well-formed system and every component,
  the tick adds \<open>(targetPosition - position) * 2.5 * dt\<close> to the velocity (then the
  repulsion term is subtracted and the sum is damped by 0.88). The target position is used
  as stored: the expansion factor does not enter the integrator, it is only smoothed and
  kept in the uniform \<open>uExpansion\<close>, and the velocity after the tick is the same
  whatever the expansion factor was before it.
\<close>

theorem update_seek_step:
  fixes s :: particle_system and dt :: real and ga :: "gestures option" and r :: rng
  assumes "wf s" and "i < count s" and "k < 3"
  defines "s' \<equiv> state_of (update dt ga (s, r))"
  defines "g \<equiv> gestures_or_empty ga"
  shows "velocities s' ! (i * 3 + k) =
           (velocities s ! (i * 3 + k)
              + (targetPositions s' ! (i * 3 + k) - positions s ! (i * 3 + k)) * 2.5 * dt
              - repulsion_kick dt (pointer_bx g) (pointer_by g) s i k) * 0.88
         \<and> uExpansion s' =
             uExpansion s + ((if handDetected g then 0.7 + handSpread g * 0.8 else 1.0) - uExpansion s) * 0.03
         \<and> velocities (state_of (update dt ga (s\<lparr>uExpansion := e\<rparr>, r))) ! (i * 3 + k)
             = velocities s' ! (i * 3 + k)"
  unfolding s'_def g_def
  using update_particle(1)[OF assms(1-3), of dt ga r] update_frame(6)[of dt ga s r]
    update_velocity_uExpansion[OF assms(1-3), of dt ga e r]
  by (simp add: seek_kick_def)

theorem update_seek_step_witness:
  "wf example_system \<and> 0 < count example_system \<and> (0::nat) < 3 \<and>
   velocities (state_of (update (1/25) (Some open_hand_far) (example_system, const_rng (1/4)))) ! 0 = 22 / 25 \<and>
   uExpansion (state_of (update (1/25) (Some open_hand_far) (example_system, const_rng (1/4)))) = 1.02955 \<and>
   velocities (state_of (update (1/25) (Some open_hand_far) (example_system\<lparr>uExpansion := 3 / 2\<rparr>, const_rng (1/4)))) ! 0
     = 22 / 25"
  using update_seek_step[where s = example_system and i = 0 and k = 0 and dt = "1/25"
      and ga = "Some open_hand_far" and r = "const_rng (1/4)" and e = "3 / 2"]
  by (simp add: wf_def example_defs)

text \<open>
  The claim as stated fails: with the target at 10, the particle at 0 and the expansion
  factor at 1.02955 after smoothing (1.015 before), the velocity after the tick is
  \<open>(0 + (10 - 0) * 2.5 * dt) * 0.88\<close>, not the value with the target scaled by either
  factor.
\<close>

theorem update_seek_expansion_counterexample:
  "velocities (state_of (update (1/25) (Some open_hand_far) (example_system, const_rng (1/4)))) ! 0
     \<noteq> (velocities example_system ! 0
          + (targetPositions example_system ! 0
               * uExpansion (state_of (update (1/25) (Some open_hand_far) (example_system, const_rng (1/4))))
             - positions example_system ! 0) * 2.5 * (1/25)) * 0.88
   \<and> velocities (state_of (update (1/25) (Some open_hand_far) (example_system, const_rng (1/4)))) ! 0
     \<noteq> (velocities example_system ! 0
          + (targetPositions example_system ! 0 * uExpansion example_system
             - positions example_system ! 0) * 2.5 * (1/25)) * 0.88"
  by (simp add: example_defs)

text \<open>
  C4: in a tick, for every particle, the squared distance to the repulsion point (with the
  particle's z compared to 0) selects one of two branches. Inside \<open>(0.01, 50)\<close> the
  velocity gets, besides the seek term, the offset to the point divided by the distance,
  times \<open>(7 - distance) * 3.0\<close>, times \<open>dt * 6\<close>, subtracted (a push away from the
  point), and each colour channel becomes \<open>min 1 (channel + 0.15)\<close>; otherwise the
  velocity gets the seek term only and each colour channel moves to the target colour by
  the fraction 0.025.
\<close>

theorem update_repulsion_or_blend:
  fixes s :: particle_system and dt :: real and ga :: "gestures option" and r :: rng
  assumes "wf s" and "i < count s" and "k < 3"
  defines "s' \<equiv> state_of (update dt ga (s, r))"
  defines "bx \<equiv> pointer_bx (gestures_or_empty ga)" and "by \<equiv> pointer_by (gestures_or_empty ga)"
  defines "distSq \<equiv> distSq_to bx by s i"
  shows "if distSq < 50 \<and> distSq > 0.01
         then velocities s' ! (i * 3 + k) =
                (velocities s ! (i * 3 + k) + seek_kick dt (targetPositions s') s i k
                   - offset_to bx by s i k / sqrt distSq * ((7 - sqrt distSq) * 3.0) * dt * 6) * 0.88
              \<and> colors s' ! (i * 3 + k) = min 1 (colors s ! (i * 3 + k) + 0.15)
         else velocities s' ! (i * 3 + k) =
                (velocities s ! (i * 3 + k) + seek_kick dt (targetPositions s') s i k) * 0.88
              \<and> colors s' ! (i * 3 + k) =
                  colors s ! (i * 3 + k) + (targetColors s' ! (i * 3 + k) - colors s ! (i * 3 + k)) * 0.025"
  unfolding s'_def bx_def by_def distSq_def
  using update_particle(1,2)[OF assms(1-3), of dt ga r]
  by (simp add: repulsion_kick_def)

theorem update_repulsion_or_blend_witness:
  "wf example_system \<and> 1 < count example_system \<and> (1::nat) < 3 \<and>
   distSq_to (pointer_bx open_hand_near) (pointer_by open_hand_near) example_system 1 = 25 \<and>
   velocities (state_of (update (1/25) (Some open_hand_near) (example_system, const_rng (1/4)))) ! 4 = 3168 / 3125 \<and>
   colors (state_of (update (1/25) (Some open_hand_near) (example_system, const_rng (1/4)))) ! 4 = 0.65"
  using update_repulsion_or_blend[where s = example_system and i = 1 and k = 1 and dt = "1/25"
      and ga = "Some open_hand_near" and r = "const_rng (1/4)"]
  by (simp add: wf_def example_defs distSq_to_def offset_to_def seek_kick_def sqrt_25)

text \<open>
  C5: the template after a tick follows the first flag set in the order fist, pinching,
  open, rock, peace, pointing, with the shapes heart, dna, galaxy, saturn, flower,
  fireworks; with no flag set, or without a snapshot, it is the template before the tick.
  The tick always returns.
\<close>

theorem update_gesture_priority:
  "returns (update dt ga (s, r)) \<and>
   currentTemplate (state_of (update dt ga (s, r))) =
     (case ga of
        None \<Rightarrow> currentTemplate s
      | Some g \<Rightarrow>
          if isFist g then ''heart''
          else if isPinching g then ''dna''
          else if isOpen g then ''galaxy''
          else if isRock g then ''saturn''
          else if isPeace g then ''flower''
          else if isPointing g then ''fireworks''
          else currentTemplate s)"
  using update_frame(1,7)[of dt ga s r]
  by (simp add: gestures_or_empty_def no_gestures_def Let_def split: option.splits)

text \<open>
  C10: a tick without a snapshot, or with a snapshot in which no gesture flag is set,
  returns and leaves \<open>currentTemplate\<close>, \<open>targetPositions\<close> and \<open>targetColors\<close> as
  they were.
\<close>

theorem update_without_gesture_frame:
  assumes "ga = None \<or> (\<exists>g. ga = Some g \<and> \<not> isFist g \<and> \<not> isPinching g \<and> \<not> isOpen g
             \<and> \<not> isRock g \<and> \<not> isPeace g \<and> \<not> isPointing g)"
  shows "returns (update dt ga (s, r))
       \<and> currentTemplate (state_of (update dt ga (s, r))) = currentTemplate s
       \<and> targetPositions (state_of (update dt ga (s, r))) = targetPositions s
       \<and> targetColors (state_of (update dt ga (s, r))) = targetColors s"
proof -
  let ?g = "gestures_or_empty ga"
  have n: "\<not> isFist ?g" "\<not> isPinching ?g" "\<not> isOpen ?g" "\<not> isRock ?g" "\<not> isPeace ?g" "\<not> isPointing ?g"
    using assms by (auto simp add: gestures_or_empty_def no_gestures_def)
  have "gesture_template ?g sr = Inr sr" for sr
    using n by (rule gesture_template_none)
  then show ?thesis
    by (simp add: update_def Let_def state_of_def returns_def update_loop_frame)
qed

theorem update_without_gesture_frame_witness:
  "returns (update (1/25) None (example_system, const_rng (1/4)))
   \<and> currentTemplate (state_of (update (1/25) None (example_system, const_rng (1/4)))) = ''galaxy''
   \<and> targetPositions (state_of (update (1/25) None (example_system, const_rng (1/4)))) = [10, 0, 0, 3, 4, 0]
   \<and> targetColors (state_of (update (1/25) None (example_system, const_rng (1/4)))) = [0.1, 0.7, 1.0, 0.85, 0.3, 1.0]"
  using update_without_gesture_frame[where ga = None and dt = "1/25" and s = example_system
      and r = "const_rng (1/4)"]
  by (simp add: example_system_def)

section \<open>Template names that are not shapes\<close>

text \<open>
  For the names that are neither shape names nor inherited members of the object
  \<open>parametric\<close>, \<open>setTemplate\<close> returns and changes nothing.
\<close>

lemma setTemplate_unknown:
  assumes "parametric_tbl name = None" and "name \<notin> set object_prototype_names"
  shows "setTemplate name sr = Inr sr"
  using assms by (cases sr) (simp add: setTemplate_def js_get_def)

lemma inherited_not_own:
  assumes "name \<in> set object_prototype_names"
  shows "js_get parametric_tbl name = Inherited"
proof -
  have n: "parametric_tbl k = None" if "k \<in> set object_prototype_names" for k
    using that unfolding object_prototype_names_def set_simps insert_iff empty_iff
    by (elim disjE) (simp_all add: parametric_tbl_def)
  show ?thesis using assms n[OF assms] by (simp add: js_get_def)
qed

text \<open>
  For every inherited member name and every system with at least one particle the call
  throws, with \<open>currentTemplate\<close> already set to that name.
\<close>

lemma setTemplate_inherited_throws:
  assumes "name \<in> set object_prototype_names" and "0 < count s"
  shows "\<not> returns (setTemplate name (s, r))
       \<and> currentTemplate (state_of (setTemplate name (s, r))) = name"
proof -
  have e: "setTemplate name (s, r) = setTemplate_inherited name (s\<lparr>currentTemplate := name\<rparr>, r)"
    using assms(2) inherited_not_own[OF assms(1)] by (simp add: setTemplate_def)
  show ?thesis
    unfolding e setTemplate_inherited_def Let_def split_beta fst_conv snd_conv
    by (simp add: returns_def state_of_def)
qed

text \<open>
  C3 at the name \<open>constructor\<close>, which is not a shape name: the guard lets it pass,
  \<open>currentTemplate\<close> becomes \<open>constructor\<close>, the target position of particle 0 is
  overwritten with jitter, and the call throws.
\<close>

theorem setTemplate_constructor_throws:
  "parametric_tbl ''constructor'' = None
   \<and> \<not> returns (setTemplate ''constructor'' (example_system, const_rng (1/4)))
   \<and> currentTemplate (state_of (setTemplate ''constructor'' (example_system, const_rng (1/4)))) = ''constructor''
   \<and> targetPositions (state_of (setTemplate ''constructor'' (example_system, const_rng (1/4))))
       = [- 3 / 40, - 3 / 40, - 3 / 40, 3, 4, 0]
   \<and> targetPositions example_system = [10, 0, 0, 3, 4, 0]"
  by (simp add: setTemplate_def setTemplate_inherited_def js_get_def parametric_tbl_def
        object_prototype_names_def inherited_call_throws_def random_def vec3_set_def
        example_system_def const_rng_def returns_def state_of_def Let_def)

section \<open>Colours\<close>

lemma SHAPE_COLORS_range:
  assumes "SHAPE_COLORS name = Some pal"
  shows "length pal = 4 \<and> (\<forall>c \<in> set pal. length c = 3 \<and> (\<forall>v \<in> set c. 0 \<le> v \<and> v \<le> 1))"
  using assms by (auto simp add: SHAPE_COLORS_def split: if_splits)

lemma sphere_palette_range:
  "length sphere_palette = 4 \<and> (\<forall>c \<in> set sphere_palette. length c = 3 \<and> (\<forall>v \<in> set c. 0 \<le> v \<and> v \<le> 1))"
  by (simp add: sphere_palette_def)

lemma list_update_le:
  fixes xs :: "real list"
  assumes "\<forall>c \<in> set xs. c \<le> b" and "v \<le> b"
  shows "\<forall>c \<in> set (xs[i := v]). c \<le> b"
  using assms set_update_subset_insert[of xs i v] by auto

text \<open>One pass of the template loop writes the three target entries of its particle.\<close>

lemma setTemplate_body_shape:
  "\<exists>tx ty tz a b c r'. setTemplate_body gen pal i (s, r) =
     (s\<lparr>targetPositions := (targetPositions s)[i * 3 := tx, i * 3 + 1 := ty, i * 3 + 2 := tz],
        targetColors := (targetColors s)[i * 3 := min 1 a, i * 3 + 1 := min 1 b, i * 3 + 2 := min 1 c]\<rparr>, r')"
  unfolding setTemplate_body_def Let_def split_beta fst_conv snd_conv
  by (intro exI) (rule refl)

lemma setTemplate_body_le_1:
  assumes "setTemplate_body gen pal i (s, r) = (s', r')" and "\<forall>c \<in> set (targetColors s). c \<le> 1"
  shows "\<forall>c \<in> set (targetColors s'). c \<le> 1"
proof -
  from setTemplate_body_shape[of gen pal i s r]
  obtain tx ty tz a b c r'' where e: "setTemplate_body gen pal i (s, r) =
     (s\<lparr>targetPositions := (targetPositions s)[i * 3 := tx, i * 3 + 1 := ty, i * 3 + 2 := tz],
        targetColors := (targetColors s)[i * 3 := min 1 a, i * 3 + 1 := min 1 b, i * 3 + 2 := min 1 c]\<rparr>, r'')"
    by (elim exE)
  have "s' = fst (setTemplate_body gen pal i (s, r))"
    by (simp only: assms(1) fst_conv)
  then have tc: "targetColors s' = (targetColors s)[i * 3 := min 1 a, i * 3 + 1 := min 1 b, i * 3 + 2 := min 1 c]"
    unfolding e by simp
  show ?thesis
    unfolding tc by (intro list_update_le assms(2)) simp_all
qed

lemma setTemplate_loop_le_1:
  assumes "setTemplate_loop gen pal n (s, r) = (s', r')" and "\<forall>c \<in> set (targetColors s). c \<le> 1"
  shows "\<forall>c \<in> set (targetColors s'). c \<le> 1"
  using assms
proof (induction n arbitrary: s' r')
  case 0
  then show ?case by simp
next
  case (Suc n)
  obtain s1 r1 where l: "setTemplate_loop gen pal n (s, r) = (s1, r1)"
    by (cases "setTemplate_loop gen pal n (s, r)")
  with Suc.prems have b: "setTemplate_body gen pal n (s1, r1) = (s', r')" by simp
  show ?case using setTemplate_body_le_1[OF b] Suc.IH[OF l] Suc.prems(2) by blast
qed

lemma setTemplate_le_1:
  assumes "channels_le_1 s"
  shows "channels_le_1 (state_of (setTemplate name (s, r)))"
proof (cases "js_get parametric_tbl name")
  case (Own gen)
  then have p: "parametric_tbl name = Some gen" by (simp add: js_get_def split: option.splits if_splits)
  define pal where "pal = (case SHAPE_COLORS name of Some p \<Rightarrow> p | None \<Rightarrow> sphere_palette)"
  obtain s' r' where l: "setTemplate_loop gen pal (count s) (s\<lparr>currentTemplate := name\<rparr>, r) = (s', r')"
    by (cases "setTemplate_loop gen pal (count s) (s\<lparr>currentTemplate := name\<rparr>, r)")
  have e: "state_of (setTemplate name (s, r)) = s'"
    using setTemplate_own[OF p, of s r] l by (simp add: pal_def state_of_def)
  show ?thesis
    using setTemplate_loop_le_1[OF l] setTemplate_loop_frame[OF l] assms by (simp add: e channels_le_1_def)
next
  case Inherited
  then show ?thesis using assms
    by (simp add: setTemplate_def setTemplate_inherited_def state_of_def channels_le_1_def Let_def
          split: prod.splits)
next
  case Undefined
  then show ?thesis using assms by (simp add: setTemplate_def state_of_def)
qed

lemma gesture_template_le_1:
  assumes "channels_le_1 s"
  shows "channels_le_1 (state_of (gesture_template g (s, r)))"
  using assms setTemplate_le_1[OF assms]
  by (simp add: gesture_template_def switch_to_def state_of_def)

lemma update_le_1:
  assumes "wf s" and "channels_le_1 s"
  shows "channels_le_1 (state_of (update dt ga (s, r)))"
proof -
  let ?s' = "state_of (update dt ga (s, r))"
  let ?g = "gestures_or_empty ga"
  let ?s0 = "s\<lparr>time := time s + dt, uTime := time s + dt\<rparr>"
  obtain s1 r1 where g: "gesture_template ?g (?s0, r) = Inr (s1, r1)"
    and u: "update dt ga (s, r) =
         Inr (update_loop dt (pointer_bx ?g) (pointer_by ?g) (count s1)
                (s1\<lparr>uExpansion := uExpansion s1 +
                     ((if handDetected ?g then 0.7 + handSpread ?g * 0.8 else 1.0) - uExpansion s1) * 0.03\<rparr>), r1)"
    using update_result[of ga s dt r] by blast
  have "channels_le_1 ?s0" using assms(2) by (simp add: channels_le_1_def)
  then have "channels_le_1 s1"
    using gesture_template_le_1[of ?s0 ?g r] g by (simp add: state_of_def)
  then have t: "\<forall>c \<in> set (targetColors ?s'). c \<le> 1"
    by (simp add: u state_of_def update_loop_frame channels_le_1_def)
  have "colors ?s' ! j \<le> 1" if j: "j < length (colors ?s')" for j
  proof -
    have l: "length (colors ?s') = count s * 3" "length (targetColors ?s') = count s * 3"
      using assms(1) by (simp_all add: update_frame wf_def)
    have i: "j div 3 < count s" and k: "j mod 3 < 3" using j l by auto
    have e: "j div 3 * 3 + j mod 3 = j" by simp
    have c: "colors s ! j \<le> 1" using assms j l by (simp add: channels_le_1_def wf_def)
    have tj: "targetColors ?s' ! j \<le> 1" using t j l by simp
    show ?thesis
      using update_particle(2)[OF assms(1) i k, of dt ga r] c tj unfolding e
      by (auto simp add: algebra_simps)
  qed
  then have "\<forall>c \<in> set (colors ?s'). c \<le> 1"
    by (auto simp add: in_set_conv_nth)
  then show ?thesis using t by (simp add: channels_le_1_def)
qed

lemma cycleColors_body_frame:
  "colorPaletteIndex (cycleColors_body pal i s) = colorPaletteIndex s"
  "currentTemplate (cycleColors_body pal i s) = currentTemplate s"
  "colors (cycleColors_body pal i s) = colors s"
  "targetPositions (cycleColors_body pal i s) = targetPositions s"
  "count (cycleColors_body pal i s) = count s"
  "length (targetColors (cycleColors_body pal i s)) = length (targetColors s)"
  by (simp_all add: cycleColors_body_def Let_def)

lemma cycleColors_loop_frame:
  "colorPaletteIndex (cycleColors_loop pal n s) = colorPaletteIndex s"
  "currentTemplate (cycleColors_loop pal n s) = currentTemplate s"
  "colors (cycleColors_loop pal n s) = colors s"
  "targetPositions (cycleColors_loop pal n s) = targetPositions s"
  "count (cycleColors_loop pal n s) = count s"
  "length (targetColors (cycleColors_loop pal n s)) = length (targetColors s)"
  by (induction n) (simp_all add: cycleColors_body_frame)

lemma cycleColors_body_le_1:
  assumes "\<forall>c \<in> set (targetColors s). c \<le> 1"
      and "0 < length pal" and "\<forall>c \<in> set pal. length c = 3 \<and> (\<forall>v \<in> set c. 0 \<le> v \<and> v \<le> 1)"
  shows "\<forall>c \<in> set (targetColors (cycleColors_body pal i s)). c \<le> 1"
proof -
  let ?c = "pal ! ((i + colorPaletteIndex s) mod length pal)"
  have "?c \<in> set pal" using assms(2) by simp
  then have "length ?c = 3" "\<forall>v \<in> set ?c. 0 \<le> v \<and> v \<le> 1" using assms(3) by auto
  then have "?c ! 1 \<in> set ?c" "\<forall>v \<in> set ?c. v \<le> 1" by simp_all
  then have g: "?c ! 1 \<le> 1" by blast
  have tc: "targetColors (cycleColors_body pal i s) = (targetColors s)
             [i * 3 := min 1 (?c ! 0 * cos (real (colorPaletteIndex s) * 0.25) + ?c ! 2 * sin (real (colorPaletteIndex s) * 0.25)),
              i * 3 + 1 := ?c ! 1,
              i * 3 + 2 := min 1 (?c ! 2 * cos (real (colorPaletteIndex s) * 0.25) - ?c ! 0 * sin (real (colorPaletteIndex s) * 0.25))]"
    by (simp add: cycleColors_body_def Let_def)
  show ?thesis
    unfolding tc by (intro list_update_le assms(1) g) simp_all
qed

lemma cycleColors_loop_le_1:
  assumes "\<forall>c \<in> set (targetColors s). c \<le> 1"
      and "0 < length pal" and "\<forall>c \<in> set pal. length c = 3 \<and> (\<forall>v \<in> set c. 0 \<le> v \<and> v \<le> 1)"
  shows "\<forall>c \<in> set (targetColors (cycleColors_loop pal n s)). c \<le> 1"
proof (induction n)
  case 0
  then show ?case using assms(1) by simp
next
  case (Suc n)
  then show ?case using cycleColors_body_le_1[OF _ assms(2,3)] by simp
qed

lemma cycleColors_le_1:
  assumes "channels_le_1 s"
  shows "channels_le_1 (state_of (cycleColors (s, r)))"
proof (cases "js_get SHAPE_COLORS (currentTemplate s)")
  case (Own pal)
  then have p: "SHAPE_COLORS (currentTemplate s) = Some pal"
    by (simp add: js_get_def split: option.splits if_splits)
  show ?thesis
    using Own assms SHAPE_COLORS_range[OF p] cycleColors_loop_le_1[of s pal "count s"]
    by (simp add: cycleColors_def state_of_def channels_le_1_def cycleColors_loop_frame)
next
  case Inherited
  then show ?thesis using assms by (simp add: cycleColors_def state_of_def channels_le_1_def)
next
  case Undefined
  then show ?thesis
    using assms sphere_palette_range cycleColors_loop_le_1[of s sphere_palette "count s"]
    by (simp add: cycleColors_def state_of_def channels_le_1_def cycleColors_loop_frame)
qed

section \<open>The claims about colours\<close>

text \<open>
  C2, as the code has it: the colour channels are capped at 1 and at 1 only. If every
  channel of every colour and target colour of a well-formed system is at most 1, it is so
  again after \<open>setTemplate\<close>, after \<open>update\<close> and after \<open>cycleColors\<close>. There is no
  lower cap.
\<close>

theorem color_channels_capped_at_1:
  assumes "wf s" and "channels_le_1 s"
  shows "channels_le_1 (state_of (setTemplate name (s, r)))
       \<and> channels_le_1 (state_of (update dt ga (s, r)))
       \<and> channels_le_1 (state_of (cycleColors (s, r)))"
  using setTemplate_le_1[OF assms(2)] update_le_1[OF assms] cycleColors_le_1[OF assms(2)]
  by blast

theorem color_channels_capped_at_1_witness:
  "wf example_system \<and> channels_le_1 example_system
   \<and> channels_le_1 (state_of (setTemplate ''dna'' (example_system, const_rng (1/4))))
   \<and> channels_le_1 (state_of (update (1/25) (Some open_hand_near) (example_system, const_rng (1/4))))
   \<and> channels_le_1 (state_of (cycleColors (example_system, const_rng (1/4))))"
proof -
  have c: "channels_le_1 example_system"
    by (simp add: channels_le_1_def example_system_def)
  show ?thesis
    using color_channels_capped_at_1[OF wf_example c] c wf_example by blast
qed

text \<open>
  The claim as stated fails below 0: the first dna colour has red 0, and with
  \<open>Math.random()\<close> returning 0.25 the target red of particle 0 after
  \<open>setTemplate('dna')\<close> is \<open>min 1 (0 + (0.25 - 0.5) * 0.1) = -0.025\<close>.
\<close>

theorem setTemplate_negative_channel_counterexample:
  "returns (setTemplate ''dna'' (example_system, const_rng (1/4)))
   \<and> targetColors (state_of (setTemplate ''dna'' (example_system, const_rng (1/4)))) ! 0 = - 1 / 40
   \<and> \<not> (0 \<le> targetColors (state_of (setTemplate ''dna'' (example_system, const_rng (1/4)))) ! 0
          \<and> targetColors (state_of (setTemplate ''dna'' (example_system, const_rng (1/4)))) ! 0 \<le> 1)"
  by (simp add: setTemplate_def js_get_def parametric_tbl_def SHAPE_COLORS_def setTemplate_body_def
        dna_def random_def vec3_set_def example_system_def const_rng_def returns_def state_of_def
        Let_def numeral_2_eq_2)

section \<open>Palette cycling\<close>

lemma cycleColors_body_other:
  "j < i * 3 \<or> i * 3 + 2 < j \<Longrightarrow> targetColors (cycleColors_body pal i s) ! j = targetColors s ! j"
  by (auto simp add: cycleColors_body_def Let_def)

lemma cycleColors_body_nth:
  fixes pal :: palette and s :: particle_system and i :: nat
  assumes "i * 3 + 2 < length (targetColors s)"
  defines "c \<equiv> pal ! ((i + colorPaletteIndex s) mod length pal)"
  defines "hueShift \<equiv> real (colorPaletteIndex s) * 0.25"
  shows "targetColors (cycleColors_body pal i s) ! (i * 3) = min 1 (c ! 0 * cos hueShift + c ! 2 * sin hueShift)"
    and "targetColors (cycleColors_body pal i s) ! (i * 3 + 1) = c ! 1"
    and "targetColors (cycleColors_body pal i s) ! (i * 3 + 2) = min 1 (c ! 2 * cos hueShift - c ! 0 * sin hueShift)"
  using assms(1) by (simp_all add: cycleColors_body_def Let_def c_def hueShift_def)

lemma cycleColors_loop_nth:
  fixes pal :: palette and s :: particle_system and i :: nat
  assumes "i < n" and "n * 3 \<le> length (targetColors s)"
  defines "c \<equiv> pal ! ((i + colorPaletteIndex s) mod length pal)"
  defines "hueShift \<equiv> real (colorPaletteIndex s) * 0.25"
  shows "targetColors (cycleColors_loop pal n s) ! (i * 3) = min 1 (c ! 0 * cos hueShift + c ! 2 * sin hueShift)
       \<and> targetColors (cycleColors_loop pal n s) ! (i * 3 + 1) = c ! 1
       \<and> targetColors (cycleColors_loop pal n s) ! (i * 3 + 2) = min 1 (c ! 2 * cos hueShift - c ! 0 * sin hueShift)"
  using assms(1,2) unfolding c_def hueShift_def
proof (induction n)
  case 0
  then show ?case by simp
next
  case (Suc n)
  let ?t = "cycleColors_loop pal n s"
  show ?case
  proof (cases "i = n")
    case True
    have "i * 3 + 2 < length (targetColors ?t)"
      using Suc.prems True by (simp add: cycleColors_loop_frame)
    from cycleColors_body_nth[OF this, of pal] show ?thesis
      using True by (simp add: cycleColors_loop_frame)
  next
    case False
    then have lt: "i < n" using Suc.prems by simp
    have o: "i * 3 < n * 3" "i * 3 + 1 < n * 3" "i * 3 + 2 < n * 3" using lt by simp_all
    show ?thesis using Suc.IH[OF lt] Suc.prems(2) o
      by (simp add: cycleColors_body_other)
  qed
qed

text \<open>
  C6, as the code has it: with the template one of the nine shapes, \<open>cycleColors\<close>
  returns and takes the base colour of particle \<open>i\<close> at position
  \<open>(i + cycleIndex) mod paletteLength\<close> of the shape's palette; red and blue are rotated
  by the angle \<open>cycleIndex * 0.25\<close> and capped at 1, green is the base green. The cycle
  index goes up by one and the template stays.
\<close>

theorem cycleColors_target:
  fixes s :: particle_system and r :: rng and pal :: palette and i :: nat
  assumes "wf s" and "i < count s" and "SHAPE_COLORS (currentTemplate s) = Some pal"
  defines "s' \<equiv> state_of (cycleColors (s, r))"
  defines "c \<equiv> pal ! ((i + colorPaletteIndex s) mod length pal)"
  defines "hueShift \<equiv> real (colorPaletteIndex s) * 0.25"
  shows "returns (cycleColors (s, r))
       \<and> targetColors s' ! (i * 3) = min 1 (c ! 0 * cos hueShift + c ! 2 * sin hueShift)
       \<and> targetColors s' ! (i * 3 + 1) = c ! 1
       \<and> targetColors s' ! (i * 3 + 2) = min 1 (c ! 2 * cos hueShift - c ! 0 * sin hueShift)
       \<and> colorPaletteIndex s' = colorPaletteIndex s + 1
       \<and> currentTemplate s' = currentTemplate s"
proof -
  have e: "cycleColors (s, r) =
             Inr ((cycleColors_loop pal (count s) s)\<lparr>colorPaletteIndex := colorPaletteIndex s + 1\<rparr>, r)"
    using assms(3) by (simp add: cycleColors_def js_get_def)
  have l: "count s * 3 \<le> length (targetColors s)" using assms(1) by (simp add: wf_def)
  show ?thesis
    unfolding s'_def c_def hueShift_def
    using cycleColors_loop_nth[OF assms(2) l, of pal]
    by (simp add: e returns_def state_of_def cycleColors_loop_frame)
qed

theorem cycleColors_target_witness:
  "wf example_system \<and> 1 < count example_system
   \<and> SHAPE_COLORS (currentTemplate example_system)
       = Some [[0.1, 0.7, 1.0], [0.85, 0.3, 1.0], [0.2, 0.4, 1.0], [0.95, 0.9, 0.75]]
   \<and> returns (cycleColors (example_system, const_rng (1/4)))
   \<and> targetColors (state_of (cycleColors (example_system, const_rng (1/4)))) ! 3 = 0.85
   \<and> targetColors (state_of (cycleColors (example_system, const_rng (1/4)))) ! 4 = 0.3
   \<and> targetColors (state_of (cycleColors (example_system, const_rng (1/4)))) ! 5 = 1
   \<and> colorPaletteIndex (state_of (cycleColors (example_system, const_rng (1/4)))) = 1"
proof -
  have p: "SHAPE_COLORS (currentTemplate example_system)
       = Some [[0.1, 0.7, 1.0], [0.85, 0.3, 1.0], [0.2, 0.4, 1.0], [0.95, 0.9, 0.75]]"
    by (simp add: SHAPE_COLORS_def example_system_def)
  have c: "1 < count example_system" by (simp add: example_system_def)
  have i: "colorPaletteIndex example_system = 0" by (simp add: example_system_def)
  show ?thesis
    using cycleColors_target[OF wf_example c p, of "const_rng (1/4)"] wf_example c p
    by (simp add: i)
qed

text \<open>
  The claim as stated fails at the second call: the cycle index is then 1 and particle 0
  takes the second galaxy colour, green 0.3, not its own base colour \<open>palette[0 mod 4]\<close>,
  green 0.7.
\<close>

theorem cycleColors_base_color_counterexample:
  "colorPaletteIndex (state_of (cycleColors (example_system, const_rng (1/4)))) = 1
   \<and> targetColors (state_of (cycleColors (state_of (cycleColors (example_system, const_rng (1/4))),
        const_rng (1/4)))) ! 1 = 0.3
   \<and> (the (SHAPE_COLORS ''galaxy'') ! (0 mod 4)) ! 1 = 0.7"
  by (simp add: cycleColors_def cycleColors_body_def js_get_def SHAPE_COLORS_def example_system_def
        state_of_def Let_def numeral_2_eq_2)

section \<open>The sphere template\<close>

lemma setTemplate_body_sphere:
  "setTemplate_body sphere pal i (s, r) =
     (s\<lparr>targetPositions := (targetPositions s)
           [i * 3 := 15 * root 3 (r 2) * sin (r 1 * pi) * cos (r 0 * pi * 2) + (r 3 - 0.5) * 0.3,
            i * 3 + 1 := 15 * root 3 (r 2) * sin (r 1 * pi) * sin (r 0 * pi * 2) + (r 4 - 0.5) * 0.3,
            i * 3 + 2 := 15 * root 3 (r 2) * cos (r 1 * pi) + (r 5 - 0.5) * 0.3],
        targetColors := (targetColors s)
           [i * 3 := min 1 (pal ! (i mod length pal) ! 0 + (r 6 - 0.5) * 0.1),
            i * 3 + 1 := min 1 (pal ! (i mod length pal) ! 1 + (r 7 - 0.5) * 0.1),
            i * 3 + 2 := min 1 (pal ! (i mod length pal) ! 2 + (r 8 - 0.5) * 0.1)]\<rparr>,
      \<lambda>n. r (n + 9))"
  unfolding setTemplate_body_def sphere_def random_def vec3_set_def Let_def split_beta fst_conv snd_conv
  apply (simp only: vec3.simps prod.inject)
  apply (intro conjI)
  apply (simp add: eval_nat_numeral)
  apply (rule ext)
  apply (simp add: eval_nat_numeral)
  done

lemma norm3_triangle:
  "norm3 (a1 + e1) (a2 + e2) (a3 + e3) \<le> norm3 a1 a2 a3 + norm3 e1 e2 e3"
proof -
  let ?pa = "sqrt (a1\<^sup>2 + a2\<^sup>2)" and ?pe = "sqrt (e1\<^sup>2 + e2\<^sup>2)"
  let ?p = "sqrt ((a1 + e1)\<^sup>2 + (a2 + e2)\<^sup>2)"
  have p: "?p \<le> ?pa + ?pe" by (rule real_sqrt_sum_squares_triangle_ineq)
  have p0: "0 \<le> ?p" by simp
  have "?p\<^sup>2 \<le> (?pa + ?pe)\<^sup>2" using p p0 by (rule power_mono)
  then have "sqrt (?p\<^sup>2 + (a3 + e3)\<^sup>2) \<le> sqrt ((?pa + ?pe)\<^sup>2 + (a3 + e3)\<^sup>2)"
    by simp
  also have "\<dots> \<le> sqrt (?pa\<^sup>2 + a3\<^sup>2) + sqrt (?pe\<^sup>2 + e3\<^sup>2)"
    by (rule real_sqrt_sum_squares_triangle_ineq)
  finally show ?thesis by (simp add: norm3_def)
qed

lemma norm3_spherical:
  assumes "0 \<le> rad"
  shows "norm3 (rad * sin theta * cos phi) (rad * sin theta * sin phi) (rad * cos theta) = rad"
proof -
  have "(rad * sin theta * cos phi)\<^sup>2 + (rad * sin theta * sin phi)\<^sup>2 + (rad * cos theta)\<^sup>2
          = rad\<^sup>2 * ((sin theta)\<^sup>2 * ((cos phi)\<^sup>2 + (sin phi)\<^sup>2) + (cos theta)\<^sup>2)"
    by algebra
  also have "\<dots> = rad\<^sup>2"
    by (simp only: sin_cos_squared_add2 sin_cos_squared_add mult_1_right)
  finally show ?thesis using assms by (simp add: norm3_def)
qed

lemma norm3_jitter:
  assumes "0 \<le> j1" "j1 < 1" "0 \<le> j2" "j2 < 1" "0 \<le> j3" "j3 < 1"
  shows "norm3 ((j1 - 0.5) * 0.3) ((j2 - 0.5) * 0.3) ((j3 - 0.5) * 0.3) \<le> 0.3"
proof -
  have sq: "((j - 0.5) * 0.3)\<^sup>2 \<le> 9 / 400" if "0 \<le> j" "j < 1" for j :: real
  proof -
    have "\<bar>(j - 0.5) * 0.3\<bar> \<le> 3 / 20" using that by argo
    then have "\<bar>(j - 0.5) * 0.3\<bar>\<^sup>2 \<le> (3 / 20)\<^sup>2" by (intro power_mono) simp_all
    then show ?thesis by (simp add: power2_eq_square)
  qed
  have "((j1 - 0.5) * 0.3)\<^sup>2 + ((j2 - 0.5) * 0.3)\<^sup>2 + ((j3 - 0.5) * 0.3)\<^sup>2 \<le> 27 / 400"
    using sq[OF assms(1,2)] sq[OF assms(3,4)] sq[OF assms(5,6)] by linarith
  also have "\<dots> \<le> (0.3::real)\<^sup>2" by (simp add: power2_eq_square)
  finally show ?thesis unfolding norm3_def by (intro real_le_lsqrt) simp_all
qed

lemma sphere_point_bound:
  assumes "0 \<le> q" "q < 1" "0 \<le> j1" "j1 < 1" "0 \<le> j2" "j2 < 1" "0 \<le> j3" "j3 < 1"
  shows "norm3 (15 * root 3 q * sin theta * cos phi + (j1 - 0.5) * 0.3)
               (15 * root 3 q * sin theta * sin phi + (j2 - 0.5) * 0.3)
               (15 * root 3 q * cos theta + (j3 - 0.5) * 0.3) \<le> 15 + 0.3"
proof -
  have r0: "0 \<le> root 3 q" using assms(1) by simp
  have "root 3 q \<le> root 3 1" using assms(2) by (intro real_root_le_mono) simp_all
  then have r1: "root 3 q \<le> 1" by simp
  have rad: "0 \<le> 15 * root 3 q" "15 * root 3 q \<le> 15" using r0 r1 by simp_all
  have "norm3 (15 * root 3 q * sin theta * cos phi + (j1 - 0.5) * 0.3)
               (15 * root 3 q * sin theta * sin phi + (j2 - 0.5) * 0.3)
               (15 * root 3 q * cos theta + (j3 - 0.5) * 0.3)
          \<le> norm3 (15 * root 3 q * sin theta * cos phi) (15 * root 3 q * sin theta * sin phi)
                 (15 * root 3 q * cos theta)
            + norm3 ((j1 - 0.5) * 0.3) ((j2 - 0.5) * 0.3) ((j3 - 0.5) * 0.3)"
    by (rule norm3_triangle)
  also have "\<dots> \<le> 15 + 0.3"
    using norm3_spherical[OF rad(1), of theta phi] rad(2) norm3_jitter[OF assms(3-8)] by linarith
  finally show ?thesis .
qed

lemma varied_channel_bound:
  fixes c q :: real
  assumes "c \<le> 1" "0 \<le> q" "q < 1"
  shows "\<bar>min 1 (c + (q - 0.5) * 0.1) - c\<bar> \<le> 0.1 \<and> min 1 (c + (q - 0.5) * 0.1) \<le> 1"
  using assms by argo

lemma nth_update3:
  assumes "i * 3 + 2 < length xs"
  shows "(xs[i * 3 := a, i * 3 + 1 := b, i * 3 + 2 := c]) ! (i * 3) = a"
    and "(xs[i * 3 := a, i * 3 + 1 := b, i * 3 + 2 := c]) ! (i * 3 + 1) = b"
    and "(xs[i * 3 := a, i * 3 + 1 := b, i * 3 + 2 := c]) ! (i * 3 + 2) = c"
  using assms by simp_all

lemma nth_update3_other:
  assumes "j < i * 3"
  shows "(xs[i * 3 := a, i * 3 + 1 := b, i * 3 + 2 := c]) ! j = xs ! j"
  using assms by simp

lemma sphere_entry_ok_cong:
  assumes "\<And>k. k < 3 \<Longrightarrow> targetPositions t ! (i * 3 + k) = targetPositions s ! (i * 3 + k)"
      and "\<And>k. k < 3 \<Longrightarrow> targetColors t ! (i * 3 + k) = targetColors s ! (i * 3 + k)"
      and "sphere_entry_ok pal s i"
  shows "sphere_entry_ok pal t i"
  using assms(3) assms(1)[of 0] assms(1)[of 1] assms(1)[of 2] assms(2)
  by (simp add: sphere_entry_ok_def)

lemma setTemplate_body_sphere_ok:
  assumes "rng_unit r" and "n * 3 + 2 < length (targetPositions s)" and "n * 3 + 2 < length (targetColors s)"
      and "\<forall>k < 3. pal ! (n mod length pal) ! k \<le> 1"
  shows "sphere_entry_ok pal (fst (setTemplate_body sphere pal n (s, r))) n"
proof -
  have u: "0 \<le> r m" "r m < 1" for m using assms(1) by (simp_all add: rng_unit_def)
  have c: "pal ! (n mod length pal) ! 0 \<le> 1" "pal ! (n mod length pal) ! 1 \<le> 1"
      "pal ! (n mod length pal) ! 2 \<le> 1"
    using assms(4) by simp_all
  have k3: "k = 0 \<or> k = 1 \<or> k = 2" if "k < 3" for k :: nat using that by auto
  let ?s' = "fst (setTemplate_body sphere pal n (s, r))"
  have tp: "targetPositions ?s' = (targetPositions s)
           [n * 3 := 15 * root 3 (r 2) * sin (r 1 * pi) * cos (r 0 * pi * 2) + (r 3 - 0.5) * 0.3,
            n * 3 + 1 := 15 * root 3 (r 2) * sin (r 1 * pi) * sin (r 0 * pi * 2) + (r 4 - 0.5) * 0.3,
            n * 3 + 2 := 15 * root 3 (r 2) * cos (r 1 * pi) + (r 5 - 0.5) * 0.3]"
    by (simp add: setTemplate_body_sphere)
  have tc: "targetColors ?s' = (targetColors s)
           [n * 3 := min 1 (pal ! (n mod length pal) ! 0 + (r 6 - 0.5) * 0.1),
            n * 3 + 1 := min 1 (pal ! (n mod length pal) ! 1 + (r 7 - 0.5) * 0.1),
            n * 3 + 2 := min 1 (pal ! (n mod length pal) ! 2 + (r 8 - 0.5) * 0.1)]"
    by (simp add: setTemplate_body_sphere)
  have p: "norm3 (targetPositions ?s' ! (n * 3)) (targetPositions ?s' ! (n * 3 + 1))
             (targetPositions ?s' ! (n * 3 + 2)) \<le> 15 + 0.3"
    unfolding tp nth_update3[OF assms(2)] by (rule sphere_point_bound[OF u u u u])
  have c0: "\<bar>targetColors ?s' ! (n * 3 + 0) - pal ! (n mod length pal) ! 0\<bar> \<le> 0.1
              \<and> targetColors ?s' ! (n * 3 + 0) \<le> 1"
    unfolding tc add_0_right nth_update3[OF assms(3)] by (rule varied_channel_bound[OF c(1) u])
  have c1: "\<bar>targetColors ?s' ! (n * 3 + 1) - pal ! (n mod length pal) ! 1\<bar> \<le> 0.1
              \<and> targetColors ?s' ! (n * 3 + 1) \<le> 1"
    unfolding tc nth_update3[OF assms(3)] by (rule varied_channel_bound[OF c(2) u])
  have c2: "\<bar>targetColors ?s' ! (n * 3 + 2) - pal ! (n mod length pal) ! 2\<bar> \<le> 0.1
              \<and> targetColors ?s' ! (n * 3 + 2) \<le> 1"
    unfolding tc nth_update3[OF assms(3)] by (rule varied_channel_bound[OF c(3) u])
  have "\<bar>targetColors ?s' ! (n * 3 + k) - pal ! (n mod length pal) ! k\<bar> \<le> 0.1
              \<and> targetColors ?s' ! (n * 3 + k) \<le> 1" if "k < 3" for k
    using k3[OF that] c0 c1 c2 by blast
  then show ?thesis
    unfolding sphere_entry_ok_def using p by blast
qed

lemma setTemplate_body_sphere_other:
  assumes "j < n * 3"
  shows "targetPositions (fst (setTemplate_body sphere pal n (s, r))) ! j = targetPositions s ! j"
    and "targetColors (fst (setTemplate_body sphere pal n (s, r))) ! j = targetColors s ! j"
  using assms by (simp_all add: setTemplate_body_sphere)

lemma setTemplate_body_sphere_rng:
  assumes "rng_unit r"
  shows "rng_unit (snd (setTemplate_body sphere pal n (s, r)))"
  using assms by (simp add: setTemplate_body_sphere rng_unit_def)

lemma setTemplate_loop_sphere_ok:
  assumes "rng_unit r" and "n * 3 \<le> length (targetPositions s)" and "n * 3 \<le> length (targetColors s)"
      and "0 < length pal" and "\<forall>c \<in> set pal. \<forall>k < 3. c ! k \<le> 1"
  shows "rng_unit (snd (setTemplate_loop sphere pal n (s, r)))
       \<and> (\<forall>i < n. sphere_entry_ok pal (fst (setTemplate_loop sphere pal n (s, r))) i)"
  using assms(2,3)
proof (induction n)
  case 0
  then show ?case using assms(1) by simp
next
  case (Suc n)
  obtain s1 r1 where l: "setTemplate_loop sphere pal n (s, r) = (s1, r1)"
    by (cases "setTemplate_loop sphere pal n (s, r)")
  have ih: "rng_unit r1" "\<forall>i < n. sphere_entry_ok pal s1 i"
    using Suc.IH Suc.prems l by simp_all
  have len: "n * 3 + 2 < length (targetPositions s1)" "n * 3 + 2 < length (targetColors s1)"
    using setTemplate_loop_frame[OF l] Suc.prems by simp_all
  have "pal ! (n mod length pal) \<in> set pal" using assms(4) by simp
  then have c: "\<forall>k < 3. pal ! (n mod length pal) ! k \<le> 1" using assms(5) by blast
  let ?s' = "fst (setTemplate_body sphere pal n (s1, r1))"
  have new: "sphere_entry_ok pal ?s' n"
    using ih(1) len c by (rule setTemplate_body_sphere_ok)
  have old: "sphere_entry_ok pal ?s' i" if "i < n" for i
  proof (rule sphere_entry_ok_cong)
    show "sphere_entry_ok pal s1 i" using ih(2) that by simp
    show "targetPositions ?s' ! (i * 3 + k) = targetPositions s1 ! (i * 3 + k)" if "k < 3" for k
      using \<open>i < n\<close> that by (intro setTemplate_body_sphere_other) simp
    show "targetColors ?s' ! (i * 3 + k) = targetColors s1 ! (i * 3 + k)" if "k < 3" for k
      using \<open>i < n\<close> that by (intro setTemplate_body_sphere_other) simp
  qed
  have all: "sphere_entry_ok pal ?s' i" if "i < Suc n" for i
    using that new old by (cases "i = n") simp_all
  have rng: "rng_unit (snd (setTemplate_body sphere pal n (s1, r1)))"
    using ih(1) by (rule setTemplate_body_sphere_rng)
  show ?case using all rng by (simp add: l)
qed

text \<open>
  C8: after \<open>setTemplate('sphere')\<close> on a well-formed system, with \<open>Math.random()\<close>
  in \<open>[0, 1)\<close>, the call returns, the template is \<open>sphere\<close>, and for every particle the
  target position has norm at most \<open>15 + 0.3\<close> and every target colour channel is within
  0.1 of the channel of \<open>sphere_palette ! (i mod 4)\<close> and at most 1.
\<close>

theorem setTemplate_sphere_bounds:
  fixes s :: particle_system and r :: rng and i :: nat
  assumes "wf s" and "i < count s" and "rng_unit r"
  defines "s' \<equiv> state_of (setTemplate ''sphere'' (s, r))"
  shows "returns (setTemplate ''sphere'' (s, r))
       \<and> currentTemplate s' = ''sphere''
       \<and> norm3 (targetPositions s' ! (i * 3)) (targetPositions s' ! (i * 3 + 1)) (targetPositions s' ! (i * 3 + 2))
           \<le> 15 + 0.3
       \<and> (\<forall>k < 3. \<bar>targetColors s' ! (i * 3 + k) - sphere_palette ! (i mod 4) ! k\<bar> \<le> 0.1
                  \<and> targetColors s' ! (i * 3 + k) \<le> 1)"
proof -
  have p: "parametric_tbl ''sphere'' = Some sphere" by (simp add: parametric_tbl_def)
  have c: "SHAPE_COLORS ''sphere'' = Some sphere_palette"
    by (simp add: SHAPE_COLORS_def sphere_palette_def)
  let ?l = "setTemplate_loop sphere sphere_palette (count s) (s\<lparr>currentTemplate := ''sphere''\<rparr>, r)"
  have e: "setTemplate ''sphere'' (s, r) = Inr ?l"
    using setTemplate_own[OF p, of s r] by (simp add: c)
  have s': "s' = fst ?l" by (simp add: s'_def e state_of_def split_beta)
  have pal: "0 < length sphere_palette" "\<forall>c \<in> set sphere_palette. \<forall>k < 3. c ! k \<le> 1"
    using sphere_palette_range by auto
  have len: "count s * 3 \<le> length (targetPositions (s\<lparr>currentTemplate := ''sphere''\<rparr>))"
      "count s * 3 \<le> length (targetColors (s\<lparr>currentTemplate := ''sphere''\<rparr>))"
    using assms(1) by (simp_all add: wf_def)
  have ok: "sphere_entry_ok sphere_palette s' i"
    using setTemplate_loop_sphere_ok[OF assms(3) len pal] assms(2) by (simp add: s')
  have ct: "currentTemplate s' = ''sphere''"
    using setTemplate_loop_frame[of sphere sphere_palette "count s" "s\<lparr>currentTemplate := ''sphere''\<rparr>" r "fst ?l" "snd ?l"]
    by (simp add: s')
  have l4: "length sphere_palette = 4" by (simp add: sphere_palette_def)
  show ?thesis
    using ok ct by (simp add: e returns_def sphere_entry_ok_def l4)
qed

theorem setTemplate_sphere_bounds_witness:
  "wf example_system \<and> 1 < count example_system \<and> rng_unit (const_rng (1/4))
   \<and> returns (setTemplate ''sphere'' (example_system, const_rng (1/4)))
   \<and> norm3 (targetPositions (state_of (setTemplate ''sphere'' (example_system, const_rng (1/4)))) ! 3)
            (targetPositions (state_of (setTemplate ''sphere'' (example_system, const_rng (1/4)))) ! 4)
            (targetPositions (state_of (setTemplate ''sphere'' (example_system, const_rng (1/4)))) ! 5)
        \<le> 15 + 0.3
   \<and> targetColors (state_of (setTemplate ''sphere'' (example_system, const_rng (1/4)))) ! 3 = 3 / 8
   \<and> sphere_palette ! (1 mod 4) ! 0 = 0.4
   \<and> targetColors (state_of (setTemplate ''sphere'' (example_system, const_rng (1/4)))) ! 3 \<le> 1"
proof -
  have u: "rng_unit (const_rng (1/4))" by (simp add: rng_unit_def const_rng_def)
  have c: "1 < count example_system" by (simp add: example_system_def)
  have v: "targetColors (state_of (setTemplate ''sphere'' (example_system, const_rng (1/4)))) ! 3 = 3 / 8"
    by (simp add: setTemplate_def js_get_def parametric_tbl_def SHAPE_COLORS_def setTemplate_body_def
          sphere_def random_def vec3_set_def example_system_def const_rng_def state_of_def
          Let_def numeral_2_eq_2)
  have p: "sphere_palette ! (1 mod 4) ! 0 = 0.4" by (simp add: sphere_palette_def)
  show ?thesis
    using setTemplate_sphere_bounds[OF wf_example c u] u c v p wf_example by simp
qed


lemma rne_error: "\<bar>real_of_int (rne y) - y\<bar> \<le> 1 / 2"
proof -
  have "real_of_int \<lfloor>y\<rfloor> \<le> y" "y < real_of_int \<lfloor>y\<rfloor> + 1" by linarith+
  then show ?thesis by (auto simp add: rne_def Let_def abs_le_iff)
qed

lemma float32_exponent_eq:
  assumes "2 powr real_of_int e \<le> \<bar>v\<bar>" and "\<bar>v\<bar> < 2 powr real_of_int (e + 1)" and "- 126 \<le> e"
  shows "float32_exponent v = e"
proof -
  have p: "0 < \<bar>v\<bar>" using assms(1) by (smt (verit) powr_gt_zero)
  have "real_of_int e \<le> log 2 \<bar>v\<bar>" using assms(1) p by (simp add: le_log_iff)
  moreover have "log 2 \<bar>v\<bar> < real_of_int (e + 1)" using assms(2) p by (simp add: log_less_iff)
  ultimately have "\<lfloor>log 2 \<bar>v\<bar>\<rfloor> = e" by (intro floor_unique) simp_all
  then show ?thesis using assms(3) by (simp add: float32_exponent_def)
qed

lemma fround_eq:
  assumes "2 powr real_of_int e \<le> \<bar>v\<bar>" and "\<bar>v\<bar> < 2 powr real_of_int (e + 1)" and "- 126 \<le> e"
  shows "fround v = real_of_int (rne (v / 2 powr real_of_int (e - 23))) * 2 powr real_of_int (e - 23)"
proof -
  have "v \<noteq> 0" using assms(1) by (smt (verit) powr_gt_zero)
  then show ?thesis by (simp add: fround_def float32_exponent_eq[OF assms] Let_def)
qed

lemma fround_error:
  "\<bar>fround v - v\<bar> \<le> \<bar>v\<bar> / 2 ^ 24 + 1 / 2 ^ 150"
proof (cases "v = 0")
  case True
  then show ?thesis by (simp add: fround_def)
next
  case False
  define e where "e = float32_exponent v"
  define ulp where "ulp = 2 powr real_of_int (e - 23)"
  have u0: "0 < ulp" by (simp add: ulp_def)
  have f: "fround v = real_of_int (rne (v / ulp)) * ulp"
    using False by (simp add: fround_def Let_def ulp_def e_def)
  have "fround v - v = (real_of_int (rne (v / ulp)) - v / ulp) * ulp"
    using u0 by (simp add: f left_diff_distrib)
  then have "\<bar>fround v - v\<bar> = \<bar>real_of_int (rne (v / ulp)) - v / ulp\<bar> * ulp"
    using u0 by (simp add: abs_mult)
  also have "\<dots> \<le> 1 / 2 * ulp"
    using rne_error[of "v / ulp"] u0 by (intro mult_right_mono) simp_all
  finally have h: "\<bar>fround v - v\<bar> \<le> ulp / 2" by simp
  have "ulp / 2 \<le> \<bar>v\<bar> / 2 ^ 24 + 1 / 2 ^ 150"
  proof (cases "- 126 \<le> \<lfloor>log 2 \<bar>v\<bar>\<rfloor>")
    case True
    then have e: "e = \<lfloor>log 2 \<bar>v\<bar>\<rfloor>" by (simp add: e_def float32_exponent_def)
    have "real_of_int e \<le> log 2 \<bar>v\<bar>" by (simp add: e)
    then have "2 powr real_of_int e \<le> \<bar>v\<bar>" using False by (simp add: le_log_iff)
    moreover have "ulp = 2 powr real_of_int e / 2 ^ 23"
      by (simp add: ulp_def powr_diff)
    ultimately have "ulp / 2 \<le> \<bar>v\<bar> / 2 ^ 24" by simp
    then show ?thesis by simp
  next
    case False
    then have e: "e = - 126" by (simp add: e_def float32_exponent_def)
    have "ulp = 1 / 2 ^ 149" by (simp add: ulp_def e powr_minus_divide)
    then show ?thesis by simp
  qed
  then show ?thesis using h by linarith
qed


lemma fround_minus_tenth: "fround (- (1 / 10)) = - (13421773 / 134217728)"
  using fround_eq[of "-4" "- (1 / 10)"] by (simp add: rne_def Let_def powr_minus_divide)

section \<open>The 32-bit buffers\<close>

lemma store_f32_length: "length (store_f32 xs j) = length xs"
  by (simp add: store_f32_def)

lemma store3_f32_length: "length (store3_f32 xs j) = length xs"
  by (simp add: store3_f32_def store_f32_length)

lemma store_f32_nth:
  "j < length xs \<Longrightarrow> store_f32 xs j ! j = fround (xs ! j)"
  "m \<noteq> j \<Longrightarrow> store_f32 xs j ! m = xs ! m"
  by (simp_all add: store_f32_def)

lemma store3_f32_nth:
  assumes "j + 2 < length xs" and "k < 3"
  shows "store3_f32 xs j ! (j + k) = fround (xs ! (j + k))"
proof -
  have k: "k = 0 \<or> k = 1 \<or> k = 2" using assms(2) by auto
  show ?thesis using k assms(1) by (auto simp add: store3_f32_def store_f32_def)
qed

lemma store3_f32_other:
  assumes "m < j \<or> j + 2 < m"
  shows "store3_f32 xs j ! m = xs ! m"
  using assms by (auto simp add: store3_f32_def store_f32_def)

lemma setTemplate_body_f32_frame:
  assumes "setTemplate_body_f32 gen pal i (s, r) = (s', r')"
  shows "currentTemplate s' = currentTemplate s \<and> positions s' = positions s \<and>
     velocities s' = velocities s \<and> colors s' = colors s \<and> sizes s' = sizes s \<and>
     count s' = count s \<and> time s' = time s \<and> uTime s' = uTime s \<and>
     uExpansion s' = uExpansion s \<and> colorPaletteIndex s' = colorPaletteIndex s \<and>
     length (targetPositions s') = length (targetPositions s) \<and>
     length (targetColors s') = length (targetColors s)"
proof -
  obtain s1 r1 where b: "setTemplate_body gen pal i (s, r) = (s1, r1)"
    by (cases "setTemplate_body gen pal i (s, r)")
  have e: "s' = s1\<lparr>targetPositions := store3_f32 (targetPositions s1) (i * 3),
            targetColors := store3_f32 (targetColors s1) (i * 3)\<rparr>"
    using assms by (simp add: setTemplate_body_f32_def b)
  show ?thesis
    using setTemplate_body_frame[OF b] by (simp add: e store3_f32_length)
qed

lemma setTemplate_loop_f32_frame:
  "setTemplate_loop_f32 gen pal n (s, r) = (s', r') \<Longrightarrow>
     currentTemplate s' = currentTemplate s \<and> positions s' = positions s \<and>
     velocities s' = velocities s \<and> colors s' = colors s \<and> sizes s' = sizes s \<and>
     count s' = count s \<and> time s' = time s \<and> uTime s' = uTime s \<and>
     uExpansion s' = uExpansion s \<and> colorPaletteIndex s' = colorPaletteIndex s \<and>
     length (targetPositions s') = length (targetPositions s) \<and>
     length (targetColors s') = length (targetColors s)"
proof (induction n arbitrary: s' r')
  case 0
  then show ?case by simp
next
  case (Suc n)
  obtain s1 r1 where l: "setTemplate_loop_f32 gen pal n (s, r) = (s1, r1)"
    by (cases "setTemplate_loop_f32 gen pal n (s, r)")
  with Suc.prems have b: "setTemplate_body_f32 gen pal n (s1, r1) = (s', r')" by simp
  show ?case using Suc.IH[OF l] setTemplate_body_f32_frame[OF b] by simp
qed

lemma setTemplate_f32_own_frame:
  assumes "parametric_tbl name = Some gen"
  shows "\<exists>s' r'. setTemplate_f32 name (s, r) = Inr (s', r') \<and>
     currentTemplate s' = name \<and> positions s' = positions s \<and>
     velocities s' = velocities s \<and> colors s' = colors s \<and> sizes s' = sizes s \<and>
     count s' = count s \<and> time s' = time s \<and> uTime s' = uTime s \<and>
     uExpansion s' = uExpansion s \<and> colorPaletteIndex s' = colorPaletteIndex s \<and>
     length (targetPositions s') = length (targetPositions s) \<and>
     length (targetColors s') = length (targetColors s)"
proof -
  define pal where "pal = (case SHAPE_COLORS name of Some p \<Rightarrow> p | None \<Rightarrow> sphere_palette)"
  have p: "setTemplate_f32 name (s, r) =
             Inr (setTemplate_loop_f32 gen pal (count s) (s\<lparr>currentTemplate := name\<rparr>, r))"
    using assms by (simp add: setTemplate_f32_def js_get_def Let_def pal_def)
  obtain s' r' where l: "setTemplate_loop_f32 gen pal (count s) (s\<lparr>currentTemplate := name\<rparr>, r) = (s', r')"
    by (cases "setTemplate_loop_f32 gen pal (count s) (s\<lparr>currentTemplate := name\<rparr>, r)")
  show ?thesis using p l setTemplate_loop_f32_frame[OF l] by simp
qed

lemma switch_to_f32_frame:
  assumes "parametric_tbl name = Some gen"
  shows "\<exists>s' r'. switch_to_f32 name (s, r) = Inr (s', r') \<and>
     currentTemplate s' = name \<and> positions s' = positions s \<and>
     velocities s' = velocities s \<and> colors s' = colors s \<and> sizes s' = sizes s \<and>
     count s' = count s \<and> time s' = time s \<and> uTime s' = uTime s \<and>
     uExpansion s' = uExpansion s \<and> colorPaletteIndex s' = colorPaletteIndex s \<and>
     length (targetPositions s') = length (targetPositions s) \<and>
     length (targetColors s') = length (targetColors s)"
proof (cases "currentTemplate s = name")
  case True
  then show ?thesis by (simp add: switch_to_f32_def)
next
  case False
  then show ?thesis using setTemplate_f32_own_frame[OF assms, of s r] by (simp add: switch_to_f32_def)
qed

lemma gesture_template_f32_frame:
  "\<exists>s' r'. gesture_template_f32 g (s, r) = Inr (s', r') \<and>
     currentTemplate s' =
       (if isFist g then ''heart'' else if isPinching g then ''dna''
        else if isOpen g then ''galaxy'' else if isRock g then ''saturn''
        else if isPeace g then ''flower'' else if isPointing g then ''fireworks''
        else currentTemplate s) \<and>
     positions s' = positions s \<and>
     velocities s' = velocities s \<and> colors s' = colors s \<and> sizes s' = sizes s \<and>
     count s' = count s \<and> time s' = time s \<and> uTime s' = uTime s \<and>
     uExpansion s' = uExpansion s \<and> colorPaletteIndex s' = colorPaletteIndex s \<and>
     length (targetPositions s') = length (targetPositions s) \<and>
     length (targetColors s') = length (targetColors s)"
proof -
  have h: "parametric_tbl ''heart'' = Some heart" "parametric_tbl ''dna'' = Some dna"
    "parametric_tbl ''galaxy'' = Some galaxy" "parametric_tbl ''saturn'' = Some saturn"
    "parametric_tbl ''flower'' = Some flower" "parametric_tbl ''fireworks'' = Some fireworks"
    by (simp_all add: parametric_tbl_def)
  show ?thesis
    unfolding gesture_template_f32_def
    using switch_to_f32_frame[OF h(1), of s r] switch_to_f32_frame[OF h(2), of s r]
      switch_to_f32_frame[OF h(3), of s r] switch_to_f32_frame[OF h(4), of s r]
      switch_to_f32_frame[OF h(5), of s r] switch_to_f32_frame[OF h(6), of s r]
    by (simp del: ex_simps)
qed

lemma update_body_f32_frame:
  "currentTemplate (update_body_f32 dt bx by i s) = currentTemplate s"
  "targetPositions (update_body_f32 dt bx by i s) = targetPositions s"
  "targetColors (update_body_f32 dt bx by i s) = targetColors s"
  "count (update_body_f32 dt bx by i s) = count s"
  "time (update_body_f32 dt bx by i s) = time s"
  "uTime (update_body_f32 dt bx by i s) = uTime s"
  "uExpansion (update_body_f32 dt bx by i s) = uExpansion s"
  "colorPaletteIndex (update_body_f32 dt bx by i s) = colorPaletteIndex s"
  "length (positions (update_body_f32 dt bx by i s)) = length (positions s)"
  "length (velocities (update_body_f32 dt bx by i s)) = length (velocities s)"
  "length (colors (update_body_f32 dt bx by i s)) = length (colors s)"
  "length (sizes (update_body_f32 dt bx by i s)) = length (sizes s)"
  by (simp_all add: update_body_f32_def Let_def update_body_frame update_body_length
        store3_f32_length store_f32_length)

lemma update_loop_f32_frame:
  "currentTemplate (update_loop_f32 dt bx by n s) = currentTemplate s"
  "targetPositions (update_loop_f32 dt bx by n s) = targetPositions s"
  "targetColors (update_loop_f32 dt bx by n s) = targetColors s"
  "count (update_loop_f32 dt bx by n s) = count s"
  "time (update_loop_f32 dt bx by n s) = time s"
  "uTime (update_loop_f32 dt bx by n s) = uTime s"
  "uExpansion (update_loop_f32 dt bx by n s) = uExpansion s"
  "colorPaletteIndex (update_loop_f32 dt bx by n s) = colorPaletteIndex s"
  "length (positions (update_loop_f32 dt bx by n s)) = length (positions s)"
  "length (velocities (update_loop_f32 dt bx by n s)) = length (velocities s)"
  "length (colors (update_loop_f32 dt bx by n s)) = length (colors s)"
  "length (sizes (update_loop_f32 dt bx by n s)) = length (sizes s)"
  by (induction n) (simp_all add: update_body_f32_frame)

lemma update_body_f32_other:
  "j < i * 3 \<or> i * 3 + 2 < j \<Longrightarrow> positions (update_body_f32 dt bx by i s) ! j = positions s ! j"
  "j < i * 3 \<or> i * 3 + 2 < j \<Longrightarrow> velocities (update_body_f32 dt bx by i s) ! j = velocities s ! j"
  "j < i * 3 \<or> i * 3 + 2 < j \<Longrightarrow> colors (update_body_f32 dt bx by i s) ! j = colors s ! j"
  "m \<noteq> i \<Longrightarrow> sizes (update_body_f32 dt bx by i s) ! m = sizes s ! m"
  by (simp_all add: update_body_f32_def Let_def store3_f32_other store_f32_nth update_body_other)

lemma update_loop_f32_untouched:
  "n * 3 \<le> j \<Longrightarrow> positions (update_loop_f32 dt bx by n s) ! j = positions s ! j"
  "n * 3 \<le> j \<Longrightarrow> velocities (update_loop_f32 dt bx by n s) ! j = velocities s ! j"
  "n * 3 \<le> j \<Longrightarrow> colors (update_loop_f32 dt bx by n s) ! j = colors s ! j"
  "n \<le> m \<Longrightarrow> sizes (update_loop_f32 dt bx by n s) ! m = sizes s ! m"
  by (induction n) (simp_all add: update_body_f32_other)

lemma update_body_f32_own:
  assumes "i * 3 + 2 < length (positions s)" "i * 3 + 2 < length (velocities s)"
      "i * 3 + 2 < length (colors s)" "i < length (sizes s)" "k < 3"
  shows "positions (update_body_f32 dt bx by i s) ! (i * 3 + k) = fround (positions (update_body dt bx by i s) ! (i * 3 + k))"
    and "velocities (update_body_f32 dt bx by i s) ! (i * 3 + k) = fround (velocities (update_body dt bx by i s) ! (i * 3 + k))"
    and "colors (update_body_f32 dt bx by i s) ! (i * 3 + k) = fround (colors (update_body dt bx by i s) ! (i * 3 + k))"
    and "sizes (update_body_f32 dt bx by i s) ! i = fround (sizes (update_body dt bx by i s) ! i)"
  using assms
  by (simp_all add: update_body_f32_def Let_def store3_f32_nth store_f32_nth update_body_length)

lemma update_loop_f32_particle:
  assumes "i < n" "n * 3 \<le> length (positions s)" "n * 3 \<le> length (velocities s)"
      "n * 3 \<le> length (colors s)" "n \<le> length (sizes s)" "k < 3"
  shows "positions (update_loop_f32 dt bx by n s) ! (i * 3 + k) = fround (positions (update_body dt bx by i s) ! (i * 3 + k))
       \<and> velocities (update_loop_f32 dt bx by n s) ! (i * 3 + k) = fround (velocities (update_body dt bx by i s) ! (i * 3 + k))
       \<and> colors (update_loop_f32 dt bx by n s) ! (i * 3 + k) = fround (colors (update_body dt bx by i s) ! (i * 3 + k))
       \<and> sizes (update_loop_f32 dt bx by n s) ! i = fround (sizes (update_body dt bx by i s) ! i)"
  using assms
proof (induction n)
  case 0
  then show ?case by simp
next
  case (Suc n)
  let ?t = "update_loop_f32 dt bx by n s"
  show ?case
  proof (cases "i = n")
    case True
    have len: "i * 3 + 2 < length (positions ?t)" "i * 3 + 2 < length (velocities ?t)"
        "i * 3 + 2 < length (colors ?t)" "i < length (sizes ?t)"
      using Suc.prems True by (simp_all add: update_loop_f32_frame)
    have c: "positions (update_body dt bx by i ?t) ! (i * 3 + k) = positions (update_body dt bx by i s) ! (i * 3 + k)"
      "velocities (update_body dt bx by i ?t) ! (i * 3 + k) = velocities (update_body dt bx by i s) ! (i * 3 + k)"
      "colors (update_body dt bx by i ?t) ! (i * 3 + k) = colors (update_body dt bx by i s) ! (i * 3 + k)"
      "sizes (update_body dt bx by i ?t) ! i = sizes (update_body dt bx by i s) ! i"
      using Suc.prems True
      by (intro update_body_cong; simp add: update_loop_f32_untouched update_loop_f32_frame)+
    show ?thesis
      using update_body_f32_own[OF len \<open>k < 3\<close>, of dt bx "by"] c True by simp
  next
    case False
    then have lt: "i < n" using Suc.prems by simp
    have ih: "positions ?t ! (i * 3 + k) = fround (positions (update_body dt bx by i s) ! (i * 3 + k))
       \<and> velocities ?t ! (i * 3 + k) = fround (velocities (update_body dt bx by i s) ! (i * 3 + k))
       \<and> colors ?t ! (i * 3 + k) = fround (colors (update_body dt bx by i s) ! (i * 3 + k))
       \<and> sizes ?t ! i = fround (sizes (update_body dt bx by i s) ! i)"
      using Suc.IH lt Suc.prems by simp
    have o: "i * 3 + k < n * 3" using lt \<open>k < 3\<close> by simp
    show ?thesis using ih o False by (simp add: update_body_f32_other)
  qed
qed

lemma update_f32_result:
  "\<exists>s1 r1. gesture_template_f32 (gestures_or_empty ga) (s\<lparr>time := time s + dt, uTime := time s + dt\<rparr>, r) = Inr (s1, r1)
     \<and> update_f32 dt ga (s, r) =
         Inr (update_loop_f32 dt (pointer_bx (gestures_or_empty ga)) (pointer_by (gestures_or_empty ga)) (count s1)
                (s1\<lparr>uExpansion := uExpansion s1 +
                     ((if handDetected (gestures_or_empty ga) then 0.7 + handSpread (gestures_or_empty ga) * 0.8 else 1.0)
                        - uExpansion s1) * 0.03\<rparr>), r1)"
proof -
  obtain s1 r1 where g: "gesture_template_f32 (gestures_or_empty ga) (s\<lparr>time := time s + dt, uTime := time s + dt\<rparr>, r) = Inr (s1, r1)"
    using gesture_template_f32_frame[of "gestures_or_empty ga" "s\<lparr>time := time s + dt, uTime := time s + dt\<rparr>" r] by blast
  then show ?thesis by (simp add: update_f32_def Let_def)
qed

lemma update_f32_particle:
  fixes s :: particle_system and dt :: real and ga :: "gestures option" and r :: rng
  assumes w: "wf s" and i: "i < count s" and k: "k < 3"
  defines "s' \<equiv> state_of (update_f32 dt ga (s, r))"
  defines "bx \<equiv> pointer_bx (gestures_or_empty ga)" and "by \<equiv> pointer_by (gestures_or_empty ga)"
  shows "velocities s' ! (i * 3 + k) =
           fround ((velocities s ! (i * 3 + k) + seek_kick dt (targetPositions s') s i k
              - repulsion_kick dt bx by s i k) * 0.88)"
    and "sizes s' ! i = fround (0.3 + 0.4 * sin ((time s + dt) * 1.5 + real i * 0.01))"
proof -
  let ?g = "gestures_or_empty ga"
  let ?s0 = "s\<lparr>time := time s + dt, uTime := time s + dt\<rparr>"
  obtain s1 r1 where g: "gesture_template_f32 ?g (?s0, r) = Inr (s1, r1)"
    and f: "positions s1 = positions ?s0" "velocities s1 = velocities ?s0" "colors s1 = colors ?s0"
      "sizes s1 = sizes ?s0" "count s1 = count ?s0" "time s1 = time ?s0"
      "length (targetPositions s1) = length (targetPositions ?s0)"
      "length (targetColors s1) = length (targetColors ?s0)"
    using gesture_template_f32_frame[of ?g ?s0 r] by blast
  define s2 where "s2 = s1\<lparr>uExpansion := uExpansion s1 +
       ((if handDetected ?g then 0.7 + handSpread ?g * 0.8 else 1.0) - uExpansion s1) * 0.03\<rparr>"
  have u: "update_f32 dt ga (s, r) = Inr (update_loop_f32 dt bx by (count s) s2, r1)"
    using update_f32_result[of ga s dt r] g f(5) by (simp add: s2_def bx_def by_def)
  have s': "s' = update_loop_f32 dt bx by (count s) s2"
    by (simp add: s'_def u state_of_def)
  have f2: "positions s2 = positions s" "velocities s2 = velocities s" "colors s2 = colors s"
      "sizes s2 = sizes s" "time s2 = time s + dt"
    using f by (simp_all add: s2_def)
  have t: "targetPositions s' = targetPositions s2" "targetColors s' = targetColors s2"
    by (simp_all add: s' update_loop_f32_frame)
  have len: "count s * 3 \<le> length (positions s2)" "count s * 3 \<le> length (velocities s2)"
      "count s * 3 \<le> length (colors s2)" "count s \<le> length (sizes s2)"
    using w by (simp_all add: f2 wf_def)
  have inr: "i * 3 + 2 < length (positions s2)" "i * 3 + 2 < length (velocities s2)"
      "i * 3 + 2 < length (colors s2)" "i < length (sizes s2)"
    using len i by simp_all
  note p = update_loop_f32_particle[OF i len k, of dt bx "by"]
  have obs: "seek_kick dt tp s2 i k = seek_kick dt tp s i k"
      "repulsion_kick dt bx by s2 i k = repulsion_kick dt bx by s i k" for tp
    by (simp_all add: seek_kick_def repulsion_kick_def distSq_to_def offset_to_def f2)
  show "velocities s' ! (i * 3 + k) =
           fround ((velocities s ! (i * 3 + k) + seek_kick dt (targetPositions s') s i k
              - repulsion_kick dt bx by s i k) * 0.88)"
    using p update_body_velocity[OF inr(2) k, of dt bx "by"] by (simp add: s' t obs f2 update_loop_f32_frame)
  show "sizes s' ! i = fround (0.3 + 0.4 * sin ((time s + dt) * 1.5 + real i * 0.01))"
    using p update_body_size[OF inr(4), of dt bx "by"] by (simp add: s' f2)
qed

lemma update_f32_frame:
  fixes s :: particle_system and dt :: real and ga :: "gestures option" and r :: rng
  defines "s' \<equiv> state_of (update_f32 dt ga (s, r))"
  shows "returns (update_f32 dt ga (s, r))"
    and "count s' = count s"
    and "time s' = time s + dt"
    and "wf s \<Longrightarrow> wf s'"
proof -
  let ?g = "gestures_or_empty ga"
  let ?s0 = "s\<lparr>time := time s + dt, uTime := time s + dt\<rparr>"
  from gesture_template_f32_frame[of ?g ?s0 r, unfolded ex_simps]
  obtain s1 r1 where g: "gesture_template_f32 ?g (?s0, r) = Inr (s1, r1)"
    and f: "positions s1 = positions ?s0" "velocities s1 = velocities ?s0" "colors s1 = colors ?s0"
      "sizes s1 = sizes ?s0" "count s1 = count ?s0" "time s1 = time ?s0"
      "length (targetPositions s1) = length (targetPositions ?s0)"
      "length (targetColors s1) = length (targetColors ?s0)"
    by blast
  define s2 where "s2 = s1\<lparr>uExpansion := uExpansion s1 +
       ((if handDetected ?g then 0.7 + handSpread ?g * 0.8 else 1.0) - uExpansion s1) * 0.03\<rparr>"
  have u: "update_f32 dt ga (s, r) = Inr (update_loop_f32 dt (pointer_bx ?g) (pointer_by ?g) (count s) s2, r1)"
    using update_f32_result[of ga s dt r] g f(5) by (simp add: s2_def)
  have s': "s' = update_loop_f32 dt (pointer_bx ?g) (pointer_by ?g) (count s) s2"
    by (simp add: s'_def u state_of_def)
  show "returns (update_f32 dt ga (s, r))" by (simp add: u returns_def)
  show "count s' = count s" by (simp add: s' update_loop_f32_frame s2_def f)
  show "time s' = time s + dt" by (simp add: s' update_loop_f32_frame s2_def f)
  show "wf s'" if "wf s"
    using that f by (simp add: wf_def s' update_loop_f32_frame s2_def)
qed

section \<open>Stored sizes\<close>

text \<open>
  C9, as the code has it: after a tick the size of particle \<open>i\<close> is the 32-bit float
  nearest to \<open>0.3 + 0.4 * sin (time * 1.5 + i * 0.01)\<close> for the advanced time. It is
  within \<open>1 / 10 ^ 7\<close> of that value, hence between \<open>-0.1 - 1 / 10 ^ 7\<close> and
  \<open>0.7 + 1 / 10 ^ 7\<close>, and it is negative for some state, time step and particle.
\<close>

theorem update_size_stored:
  "(wf s \<and> i < count s \<longrightarrow>
      sizes (state_of (update_f32 dt ga (s, r))) ! i =
        fround (0.3 + 0.4 * sin (time (state_of (update_f32 dt ga (s, r))) * 1.5 + real i * 0.01))
      \<and> \<bar>sizes (state_of (update_f32 dt ga (s, r))) ! i
           - (0.3 + 0.4 * sin (time (state_of (update_f32 dt ga (s, r))) * 1.5 + real i * 0.01))\<bar> \<le> 1 / 10 ^ 7
      \<and> - 0.1 - 1 / 10 ^ 7 \<le> sizes (state_of (update_f32 dt ga (s, r))) ! i
      \<and> sizes (state_of (update_f32 dt ga (s, r))) ! i \<le> 0.7 + 1 / 10 ^ 7)
   \<and> (\<exists>s' dt' ga' r' i'. wf s' \<and> i' < count s' \<and> sizes (state_of (update_f32 dt' ga' (s', r'))) ! i' < 0)"
proof
  show "wf s \<and> i < count s \<longrightarrow>
      sizes (state_of (update_f32 dt ga (s, r))) ! i =
        fround (0.3 + 0.4 * sin (time (state_of (update_f32 dt ga (s, r))) * 1.5 + real i * 0.01))
      \<and> \<bar>sizes (state_of (update_f32 dt ga (s, r))) ! i
           - (0.3 + 0.4 * sin (time (state_of (update_f32 dt ga (s, r))) * 1.5 + real i * 0.01))\<bar> \<le> 1 / 10 ^ 7
      \<and> - 0.1 - 1 / 10 ^ 7 \<le> sizes (state_of (update_f32 dt ga (s, r))) ! i
      \<and> sizes (state_of (update_f32 dt ga (s, r))) ! i \<le> 0.7 + 1 / 10 ^ 7"
  proof
    assume a: "wf s \<and> i < count s"
    define y where "y = 0.3 + 0.4 * sin ((time s + dt) * 1.5 + real i * 0.01)"
    have t: "time (state_of (update_f32 dt ga (s, r))) = time s + dt"
      by (rule update_f32_frame(3))
    have e: "sizes (state_of (update_f32 dt ga (s, r))) ! i = fround y"
      using update_f32_particle(2)[of s i 0 dt ga r] a by (simp add: y_def)
    have b: "- 1 \<le> sin ((time s + dt) * 1.5 + real i * 0.01)" "sin ((time s + dt) * 1.5 + real i * 0.01) \<le> 1"
      by simp_all
    have lo: "- (1 / 10) \<le> y" and hi: "y \<le> 7 / 10"
      unfolding y_def using b by linarith+
    have ay: "\<bar>y\<bar> \<le> 7 / 10" using lo hi by (simp add: abs_le_iff)
    have "\<bar>fround y - y\<bar> \<le> \<bar>y\<bar> / 2 ^ 24 + 1 / 2 ^ 150" by (rule fround_error)
    also have "\<dots> \<le> (7 / 10) / 2 ^ 24 + 1 / 2 ^ 150"
      using ay by (simp add: divide_right_mono)
    also have "\<dots> \<le> 1 / 10 ^ 7" by simp
    finally have er: "\<bar>fround y - y\<bar> \<le> 1 / 10 ^ 7" .
    have er': "\<bar>fround y - y\<bar> \<le> 1 / 10000000" using er by simp
    have "- (1 / 10) - 1 / 10000000 \<le> fround y" and "fround y \<le> 7 / 10 + 1 / 10000000"
      using er' lo hi by argo+
    then have l2: "- (1 / 10) - 1 / 10 ^ 7 \<le> fround y" and h2: "fround y \<le> 7 / 10 + 1 / 10 ^ 7"
      by simp_all
    show "sizes (state_of (update_f32 dt ga (s, r))) ! i =
        fround (0.3 + 0.4 * sin (time (state_of (update_f32 dt ga (s, r))) * 1.5 + real i * 0.01))
      \<and> \<bar>sizes (state_of (update_f32 dt ga (s, r))) ! i
           - (0.3 + 0.4 * sin (time (state_of (update_f32 dt ga (s, r))) * 1.5 + real i * 0.01))\<bar> \<le> 1 / 10 ^ 7
      \<and> - 0.1 - 1 / 10 ^ 7 \<le> sizes (state_of (update_f32 dt ga (s, r))) ! i
      \<and> sizes (state_of (update_f32 dt ga (s, r))) ! i \<le> 0.7 + 1 / 10 ^ 7"
      unfolding t e y_def[symmetric] using er l2 h2 by simp
  qed
next
  have "sizes (state_of (update_f32 pi None (example_system, const_rng (1/4)))) ! 0
          = fround (0.3 + 0.4 * sin ((time example_system + pi) * 1.5 + real 0 * 0.01))"
    using update_f32_particle(2)[of example_system 0 0 pi None "const_rng (1/4)"] wf_example
    by (simp add: example_system_def)
  also have "0.3 + 0.4 * sin ((time example_system + pi) * 1.5 + real 0 * 0.01) = 0.3 + 0.4 * sin (3 / 2 * pi)"
    by (simp add: example_system_def mult.commute)
  also have "\<dots> = - 1 / 10"
    unfolding sin_3over2_pi by simp
  finally have "sizes (state_of (update_f32 pi None (example_system, const_rng (1/4)))) ! 0 < 0"
    by (simp add: fround_minus_tenth)
  moreover have "0 < count example_system" by (simp add: example_system_def)
  ultimately show "\<exists>s' dt' ga' r' i'. wf s' \<and> i' < count s' \<and> sizes (state_of (update_f32 dt' ga' (s', r'))) ! i' < 0"
    using wf_example by blast
qed

theorem update_size_stored_witness:
  "wf example_system \<and> 1 < count example_system \<and>
   sizes (state_of (update_f32 (1/25) None (example_system, const_rng (1/4)))) ! 1
     = fround (0.3 + 0.4 * sin (7 / 100)) \<and>
   - 0.1 - 1 / 10 ^ 7 \<le> sizes (state_of (update_f32 (1/25) None (example_system, const_rng (1/4)))) ! 1 \<and>
   sizes (state_of (update_f32 (1/25) None (example_system, const_rng (1/4)))) ! 1 \<le> 0.7 + 1 / 10 ^ 7"
proof -
  have c: "1 < count example_system" by (simp add: example_system_def)
  have t: "time (state_of (update_f32 (1/25) None (example_system, const_rng (1/4)))) = 1 / 25"
    using update_f32_frame(3)[of "1/25" None example_system "const_rng (1/4)"]
    by (simp add: example_system_def)
  show ?thesis
    using update_size_stored[where s = example_system and i = 1 and dt = "1/25" and ga = None
        and r = "const_rng (1/4)"] wf_example c
    by (simp add: t)
qed

text \<open>
  The claim as stated fails at the lower end of the interval: at elapsed time \<open>pi\<close> the
  sine is -1 and the size stored for particle 0 is the 32-bit float nearest to -0.1, which
  is below -0.1.
\<close>

theorem update_size_below_interval_counterexample:
  "sizes (state_of (update_f32 pi None (example_system, const_rng (1/4)))) ! 0 = - 13421773 / 134217728
   \<and> \<not> (- 0.1 \<le> sizes (state_of (update_f32 pi None (example_system, const_rng (1/4)))) ! 0)"
proof -
  have "sizes (state_of (update_f32 pi None (example_system, const_rng (1/4)))) ! 0
          = fround (0.3 + 0.4 * sin ((time example_system + pi) * 1.5 + real 0 * 0.01))"
    using update_f32_particle(2)[of example_system 0 0 pi None "const_rng (1/4)"] wf_example
    by (simp add: example_system_def)
  also have "0.3 + 0.4 * sin ((time example_system + pi) * 1.5 + real 0 * 0.01) = 0.3 + 0.4 * sin (3 / 2 * pi)"
    by (simp add: example_system_def mult.commute)
  also have "\<dots> = - 1 / 10"
    unfolding sin_3over2_pi by simp
  finally have e: "sizes (state_of (update_f32 pi None (example_system, const_rng (1/4)))) ! 0
     = - 13421773 / 134217728"
    by (simp add: fround_minus_tenth)
  show ?thesis unfolding e by simp
qed

section \<open>Damping of the stored velocities\<close>


lemma norm3_nonneg: "0 \<le> norm3 a b c"
  by (simp add: norm3_def)






















end
